theory Spec2Isabelle
  imports Complex_Main "HOL-Library.AList" "HOL-Library.List_Lexorder" "HOL-Library.Multiset"
begin

section \<open>Strings, metadata, documents, exceptions\<close>

text \<open>
  A Python \<open>str\<close> is a sequence of Unicode code points: \<open>len\<close> counts code points and
  comparison is lexicographic on them. It is modelled as a list of code points;
  \<open>py\<close> turns an ASCII literal into that form. Python floats are modelled as reals
  (rounding is not modelled).
\<close>

type_synonym pystr = "nat list"

definition py :: "string \<Rightarrow> pystr" where
  "py s = map of_char s"

text \<open>The code points for which \<open>str.isspace\<close> holds; \<open>str.strip()\<close> removes them at both ends.\<close>

definition is_space :: "nat \<Rightarrow> bool" where
  "is_space c = ((9 \<le> c \<and> c \<le> 13) \<or> (28 \<le> c \<and> c \<le> 32) \<or> c = 133 \<or> c = 160
     \<or> c = 5760 \<or> (8192 \<le> c \<and> c \<le> 8202) \<or> c = 8232 \<or> c = 8233 \<or> c = 8239
     \<or> c = 8287 \<or> c = 12288)"

definition strip :: "pystr \<Rightarrow> pystr" where
  "strip s = rev (dropWhile is_space (rev (dropWhile is_space s)))"

fun join :: "pystr \<Rightarrow> pystr list \<Rightarrow> pystr" where
  "join sep [] = []"
| "join sep [x] = x"
| "join sep (x # y # ys) = x @ sep @ join sep (y # ys)"

text \<open>Values stored in a document's metadata dictionary (\<open>Dict[str, Any]\<close>).\<close>

datatype mval = MInt int | MFloat real | MBool bool | MText pystr

text \<open>
  A \<open>dict\<close> keeps insertion order; assigning to a present key replaces the value in
  place and assigning to an absent key appends, which is \<open>AList.update\<close>.
\<close>

type_synonym metadata_t = "(pystr \<times> mval) list"

record document =
  page_content :: pystr
  metadata :: metadata_t

definition md_get :: "metadata_t \<Rightarrow> pystr \<Rightarrow> mval \<Rightarrow> mval" where
  "md_get md k dflt = (case map_of md k of None \<Rightarrow> dflt | Some v \<Rightarrow> v)"

text \<open>
  Exceptions (all subclasses of \<open>Exception\<close>). \<open>ValueError\<close> carries its message;
  \<open>TypeError\<close> is raised by comparing a \<open>str\<close> with a number; \<open>ExternalError\<close> is any
  exception raised inside a library or a remote backend, with its \<open>str(e)\<close>.
\<close>

datatype error = ValueError pystr | TypeError | ExternalError pystr

section \<open>External collaborators\<close>

text \<open>Generation-backend clients built by \<open>LLMFactory._create_llm\<close>, with their constructor arguments.\<close>

datatype llm_spec =
    ChatOpenAI (base_url: pystr) (api_key: pystr) (model: pystr) (temperature: real) (max_tokens: nat)
  | ChatGoogleGenerativeAI (google_api_key: pystr) (gmodel: pystr) (gtemperature: real) (max_output_tokens: nat)

text \<open>
  Each call of a constructor makes a new object: an instance is its specification together
  with an identity, its position among all the clients constructed so far.
\<close>

record llm_obj =
  obj_id :: nat
  spec :: llm_spec

text \<open>The three prompt templates of \<open>RAGPrompts\<close> that the pipeline uses, by their dictionary key.\<close>

datatype template = Qa | Conversational_qa | Question_rewrite

text \<open>
  What a generation backend is invoked on: a bare string (\<open>llm.invoke("Hello")\<close>), or a
  chain \<open>inputs | prompt | llm | StrOutputParser()\<close>, that is a template together with the
  values of its variables.
\<close>

datatype prompt = Raw pystr | Chain template "(pystr \<times> pystr) list"

text \<open>Embedding clients built by \<open>EmbeddingFactory._create_embeddings\<close>.\<close>

datatype embeddings_spec =
    OpenAIEmbeddings pystr pystr pystr nat nat
  | HuggingFaceEmbeddings pystr

text \<open>
  A vector store built by \<open>VectorStoreFactory\<close>: Chroma with its collection name, embedding
  client and storage directory (\<open>chroma_dir / collection_name\<close>, given by its two parts),
  or Milvus with its embedding client, collection name, host and port.
\<close>

datatype vstore =
    Chroma pystr embeddings_spec pystr
  | Milvus embeddings_spec pystr pystr pystr

text \<open>Keyword arguments of a search (\<open>{"k": top_k}\<close>).\<close>

type_synonym kwargs = "(pystr \<times> int) list"

text \<open>
  Everything outside this repository is a field of the environment:
  scikit-learn's \<open>TfidfVectorizer.fit_transform\<close> (row \<open>i\<close> of the matrix is the vector of
  text \<open>i\<close>; it raises on an empty vocabulary) and \<open>cosine_similarity\<close>; the vector store's
  \<open>similarity_search\<close>; LangChain's \<open>BM25Retriever\<close> (construction and search),
  \<open>EnsembleRetriever\<close> (construction, and the fusion of the ranked lists of its members
  under its weights), \<open>MultiQueryRetriever\<close> and \<open>ContextualCompressionRetriever\<close> (both
  given the generation client and the search function of their base retriever); the
  constructors of the backend clients and of the store; the generation backends
  themselves (the answer may depend on how many calls were made before); the wall clock
  (the \<open>n\<close>-th reading of \<open>time.time()\<close>); and Python's formatting of a float and of the
  \<open>TypeError\<close> of a comparison.
\<close>

record 'v env =
  fit_transform :: "pystr list \<Rightarrow> error + (nat \<Rightarrow> 'v)"
  cosine_similarity :: "'v \<Rightarrow> 'v \<Rightarrow> real"
  similarity_search :: "vstore \<Rightarrow> pystr \<Rightarrow> kwargs \<Rightarrow> error + document list"
  bm25_from_texts :: "pystr list \<Rightarrow> metadata_t list \<Rightarrow> error option"
  bm25_search :: "pystr list \<Rightarrow> metadata_t list \<Rightarrow> int \<Rightarrow> pystr \<Rightarrow> error + document list"
  ensemble_init :: "real list \<Rightarrow> error option"
  ensemble_fuse :: "real list \<Rightarrow> document list list \<Rightarrow> error + document list"
  multi_query_from_llm :: "llm_spec \<Rightarrow> error option"
  multi_query_search :: "llm_spec \<Rightarrow> (pystr \<Rightarrow> error + document list) \<Rightarrow> pystr \<Rightarrow> error + document list"
  extractor_from_llm :: "llm_spec \<Rightarrow> error option"
  compression_search :: "llm_spec \<Rightarrow> (pystr \<Rightarrow> error + document list) \<Rightarrow> pystr \<Rightarrow> error + document list"
  llm_init :: "llm_spec \<Rightarrow> error option"
  llm_invoke :: "llm_spec \<Rightarrow> nat \<Rightarrow> prompt \<Rightarrow> error + pystr"
  embeddings_init :: "embeddings_spec \<Rightarrow> error option"
  vstore_init :: "vstore \<Rightarrow> error option"
  clock :: "nat \<Rightarrow> real"
  float_str :: "real \<Rightarrow> pystr"
  type_error_str :: pystr

section \<open>Rerankers (\<open>retrievers/reranker.py\<close>)\<close>

subsection \<open>\<open>BasicReranker.rerank_documents\<close>\<close>

text \<open>
  \<open>list.sort(key=..., reverse=True)\<close> on the scores: numbers compare by value, strings
  lexicographically (a \<open>bool\<close> is the number 0 or 1), a string against a number raises
  \<open>TypeError\<close>; a list of at most one
  element is never compared. The sort is stable also when reversed (CPython reverses,
  sorts ascending and reverses again).
\<close>

fun is_num :: "mval \<Rightarrow> bool" where
  "is_num (MInt i) = True"
| "is_num (MFloat r) = True"
| "is_num (MBool b) = True"
| "is_num (MText s) = False"

fun num_of :: "mval \<Rightarrow> real" where
  "num_of (MInt i) = real_of_int i"
| "num_of (MFloat r) = r"
| "num_of (MBool b) = (if b then 1 else 0)"
| "num_of (MText s) = 0"

fun text_of :: "mval \<Rightarrow> pystr" where
  "text_of (MText s) = s"
| "text_of (MInt i) = []"
| "text_of (MFloat r) = []"
| "text_of (MBool b) = []"

definition sort_reverse :: "('a \<Rightarrow> mval) \<Rightarrow> 'a list \<Rightarrow> error + 'a list" where
  "sort_reverse key xs =
     (if length xs \<le> 1 then Inr xs
      else if list_all (\<lambda>x. is_num (key x)) xs
        then Inr (rev (sort_key (\<lambda>x. num_of (key x)) (rev xs)))
      else if list_all (\<lambda>x. \<not> is_num (key x)) xs
        then Inr (rev (sort_key (\<lambda>x. text_of (key x)) (rev xs)))
      else Inl TypeError)"

text \<open>\<open>top_k\<close> is \<open>Optional[int]\<close>; \<open>xs[:k]\<close> with a negative \<open>k\<close> drops the last \<open>-k\<close> elements.\<close>

definition truthy_int :: "int option \<Rightarrow> bool" where
  "truthy_int k = (case k of None \<Rightarrow> False | Some i \<Rightarrow> i \<noteq> 0)"

definition slice_to :: "'a list \<Rightarrow> int \<Rightarrow> 'a list" where
  "slice_to xs k = (if 0 \<le> k then take (nat k) xs else take (length xs - nat (- k)) xs)"

definition basic_rerank_documents ::
  "pystr \<Rightarrow> document list \<Rightarrow> int option \<Rightarrow> error + document list" where
  "basic_rerank_documents query documents top_k =
     (let scored_docs = map (\<lambda>doc. (doc, md_get (metadata doc) (py ''score'') (MFloat 0))) documents
      in case sort_reverse snd scored_docs of
           Inl e \<Rightarrow> Inl e
         | Inr sorted_docs \<Rightarrow>
             (let reranked = map fst sorted_docs
              in if truthy_int top_k then Inr (slice_to reranked (the top_k)) else Inr reranked))"

subsection \<open>\<open>MMRReranker.rerank_documents\<close>\<close>

text \<open>
  Python's \<open>max(xs, key=...)\<close> and \<open>numpy.argmax\<close> both return the first maximal
  element: the candidate is replaced only by a strictly greater one.
\<close>

fun max_from :: "('a \<Rightarrow> real) \<Rightarrow> 'a \<Rightarrow> 'a list \<Rightarrow> 'a" where
  "max_from key best [] = best"
| "max_from key best (x # xs) = max_from key (if key best < key x then x else best) xs"

definition py_max :: "('a \<Rightarrow> real) \<Rightarrow> 'a list \<Rightarrow> error + 'a" where
  "py_max key xs = (case xs of [] \<Rightarrow> Inl (ValueError (py ''max() arg is an empty sequence''))
                    | x # rest \<Rightarrow> Inr (max_from key x rest))"

definition np_argmax :: "real list \<Rightarrow> error + nat" where
  "np_argmax xs = (case py_max snd (enumerate 0 xs) of Inl e \<Rightarrow> Inl e | Inr p \<Rightarrow> Inr (fst p))"

definition np_max :: "real list \<Rightarrow> real" where
  "np_max xs = (case xs of [] \<Rightarrow> 0 | x # rest \<Rightarrow> fold max rest x)"

text \<open>The score of candidate \<open>idx\<close> against the passages selected so far (the body of the inner \<open>for\<close>).\<close>

definition mmr_score :: "real \<Rightarrow> (nat \<Rightarrow> real) \<Rightarrow> (nat \<Rightarrow> nat \<Rightarrow> real) \<Rightarrow> nat list \<Rightarrow> nat \<Rightarrow> real" where
  "mmr_score lambda_mult query_sim doc_sim selected_indices idx =
     (let max_sim_to_selected =
            (if selected_indices \<noteq> [] then np_max (map (doc_sim idx) selected_indices) else 0)
      in lambda_mult * query_sim idx - (1 - lambda_mult) * max_sim_to_selected)"

definition best_index :: "real \<Rightarrow> (nat \<Rightarrow> real) \<Rightarrow> (nat \<Rightarrow> nat \<Rightarrow> real) \<Rightarrow> nat list \<Rightarrow> nat list \<Rightarrow> nat" where
  "best_index lambda_mult query_sim doc_sim selected_indices remaining_indices =
     (let mmr_scores = map (\<lambda>idx. (idx, mmr_score lambda_mult query_sim doc_sim selected_indices idx))
                           remaining_indices
      in fst (max_from snd (hd mmr_scores) (tl mmr_scores)))"

text \<open>The \<open>while\<close> loop; \<open>max\<close> is never applied to an empty list because of the loop condition.\<close>

function mmr_loop ::
  "real \<Rightarrow> (nat \<Rightarrow> real) \<Rightarrow> (nat \<Rightarrow> nat \<Rightarrow> real) \<Rightarrow> int \<Rightarrow> nat list \<Rightarrow> nat list \<Rightarrow> nat list" where
  "mmr_loop lambda_mult query_sim doc_sim target_count selected_indices remaining_indices =
     (if int (length selected_indices) < target_count \<and> remaining_indices \<noteq> [] then
        (let best_idx = best_index lambda_mult query_sim doc_sim selected_indices remaining_indices
         in mmr_loop lambda_mult query_sim doc_sim target_count
              (selected_indices @ [best_idx]) (remove1 best_idx remaining_indices))
      else selected_indices)"
  by pat_completeness auto
termination
proof (relation "measure (\<lambda>(l, q, d, t, s, r). length r)")
  show "wf (measure (\<lambda>(l, q, d, t, s, r). length r))" by simp
next
  fix lambda_mult :: real and query_sim :: "nat \<Rightarrow> real" and doc_sim :: "nat \<Rightarrow> nat \<Rightarrow> real"
    and target_count :: int and selected_indices remaining_indices :: "nat list" and x :: nat
  assume c: "int (length selected_indices) < target_count \<and> remaining_indices \<noteq> []"
    and x: "x = best_index lambda_mult query_sim doc_sim selected_indices remaining_indices"
  have mem: "max_from key b xs \<in> set (b # xs)"
    for key :: "nat \<times> real \<Rightarrow> real" and b xs
    by (induction xs arbitrary: b) (auto split: if_splits)
  let ?ms = "map (\<lambda>idx. (idx, mmr_score lambda_mult query_sim doc_sim selected_indices idx))
               remaining_indices"
  have "?ms \<noteq> []" using c by simp
  then have "max_from snd (hd ?ms) (tl ?ms) \<in> set ?ms"
    using mem [of snd "hd ?ms" "tl ?ms"] by simp
  then have "fst (max_from snd (hd ?ms) (tl ?ms)) \<in> fst ` set ?ms" by blast
  also have "fst ` set ?ms = set remaining_indices" by force
  finally have "x \<in> set remaining_indices" using x by (simp add: best_index_def Let_def)
  then have "length (remove1 x remaining_indices) < length remaining_indices"
    by (simp add: length_remove1) (cases remaining_indices, auto)
  then show "((lambda_mult, query_sim, doc_sim, target_count, selected_indices @ [x],
               remove1 x remaining_indices),
              (lambda_mult, query_sim, doc_sim, target_count, selected_indices, remaining_indices))
             \<in> measure (\<lambda>(l, q, d, t, s, r). length r)"
    by simp
qed

declare mmr_loop.simps [simp del]

text \<open>\<open>top_k or len(documents)\<close>: \<open>None\<close> and \<open>0\<close> are falsy.\<close>

definition top_k_or :: "int option \<Rightarrow> int \<Rightarrow> int" where
  "top_k_or top_k n = (if truthy_int top_k then the top_k else n)"

definition mmr_select ::
  "real \<Rightarrow> (nat \<Rightarrow> real) \<Rightarrow> (nat \<Rightarrow> nat \<Rightarrow> real) \<Rightarrow> nat \<Rightarrow> int option \<Rightarrow> error + nat list" where
  "mmr_select lambda_mult query_sim doc_sim n top_k =
     (case np_argmax (map query_sim [0..<n]) of
        Inl e \<Rightarrow> Inl e
      | Inr first_idx \<Rightarrow>
          (let selected_indices = [first_idx];
               remaining_indices = remove1 first_idx [0..<n];
               target_count = min (top_k_or top_k (int n)) (int n)
           in Inr (mmr_loop lambda_mult query_sim doc_sim target_count
                     selected_indices remaining_indices)))"

text \<open>The final loop writes \<open>mmr_rank\<close> and \<open>original_score\<close> into each selected document.\<close>

definition annotate :: "(nat \<Rightarrow> real) \<Rightarrow> nat list \<Rightarrow> document list \<Rightarrow> document list" where
  "annotate query_sim selected_indices reranked_docs =
     map (\<lambda>(i, doc). doc\<lparr>metadata :=
            AList.update (py ''original_score'') (MFloat (query_sim (selected_indices ! i)))
              (AList.update (py ''mmr_rank'') (MInt (int i + 1)) (metadata doc))\<rparr>)
         (enumerate 0 reranked_docs)"

text \<open>
  Row 0 of the matrix is the query (\<open>tfidf_matrix[0:1]\<close>), rows 1.. are the documents
  (\<open>tfidf_matrix[1:]\<close>): \<open>query_similarities[i]\<close> and the similarity of documents \<open>i\<close>
  and \<open>j\<close>.
\<close>

definition query_similarities :: "'v env \<Rightarrow> (nat \<Rightarrow> 'v) \<Rightarrow> nat \<Rightarrow> real" where
  "query_similarities E tfidf_matrix i =
     cosine_similarity E (tfidf_matrix 0) (tfidf_matrix (Suc i))"

definition doc_similarities :: "'v env \<Rightarrow> (nat \<Rightarrow> 'v) \<Rightarrow> nat \<Rightarrow> nat \<Rightarrow> real" where
  "doc_similarities E tfidf_matrix i j =
     cosine_similarity E (tfidf_matrix (Suc i)) (tfidf_matrix (Suc j))"

definition mmr_try ::
  "'v env \<Rightarrow> real \<Rightarrow> pystr \<Rightarrow> document list \<Rightarrow> int option \<Rightarrow> error + document list" where
  "mmr_try E lambda_mult query documents top_k =
     (let doc_texts = map page_content documents;
          all_texts = query # doc_texts
      in case fit_transform E all_texts of
           Inl e \<Rightarrow> Inl e
         | Inr tfidf_matrix \<Rightarrow>
             (let query_sim = query_similarities E tfidf_matrix;
                  doc_sim = doc_similarities E tfidf_matrix
              in case mmr_select lambda_mult query_sim doc_sim (length documents) top_k of
                   Inl e \<Rightarrow> Inl e
                 | Inr selected_indices \<Rightarrow>
                     Inr (annotate query_sim selected_indices
                            (map (\<lambda>i. documents ! i) selected_indices))))"

definition mmr_rerank_documents ::
  "'v env \<Rightarrow> real \<Rightarrow> pystr \<Rightarrow> document list \<Rightarrow> int option \<Rightarrow> error + document list" where
  "mmr_rerank_documents E lambda_mult query documents top_k =
     (if documents = [] then Inr documents
      else if length documents \<le> 1 then Inr documents
      else case mmr_try E lambda_mult query documents top_k of
             Inr reranked_docs \<Rightarrow> Inr reranked_docs
           | Inl e \<Rightarrow> basic_rerank_documents query documents top_k)"

text \<open>
  The marginal relevance of passage \<open>i\<close> against the selected passages \<open>S\<close> in the words
  of the specification: lambda times its query similarity minus (1 - lambda) times its
  maximum similarity to any already-selected passage.
\<close>

definition marginal_relevance ::
  "real \<Rightarrow> (nat \<Rightarrow> real) \<Rightarrow> (nat \<Rightarrow> nat \<Rightarrow> real) \<Rightarrow> nat list \<Rightarrow> nat \<Rightarrow> real" where
  "marginal_relevance lam qs ds S i = lam * qs i - (1 - lam) * Max (ds i ` set S)"

section \<open>Configuration (\<open>config.py\<close>)\<close>

text \<open>The fields of \<open>AppConfig\<close> that the retrieval and generation code reads.\<close>

record app_config =
  vector_store :: pystr
  chroma_dir :: pystr
  milvus_host :: pystr
  milvus_port :: pystr
  retriever_type :: pystr
  hybrid_alpha :: real
  reranker_type :: pystr
  mmr_lambda :: real
  top_k_retrieval :: int
  embedding_provider :: pystr
  embedding_model :: pystr
  openai_embed_base_url :: pystr
  openai_embed_api_key :: pystr
  hf_embedding_model :: pystr
  llm_provider :: pystr
  openai_base_url :: pystr
  openai_api_key :: pystr
  openai_model :: pystr
  deepseek_base_url :: pystr
  deepseek_api_key :: pystr
  deepseek_model :: pystr
  gemini_api_key :: pystr
  gemini_model :: pystr
  doubao_base_url :: pystr
  doubao_api_key :: pystr
  doubao_model :: pystr

section \<open>Process state and exceptions\<close>

text \<open>
  The part of the process that the code below changes and that no object of the
  repository owns: every generation client constructed so far, with the provider name it
  was constructed for (in construction order); every invocation of a generation backend
  made by the pipeline, with the client invoked; and the number of clock readings.
\<close>

record world =
  created :: "(pystr \<times> llm_obj) list"
  calls :: "(nat \<times> prompt) list"
  ticks :: nat

text \<open>
  A statement that may raise returns \<open>Inl e\<close> or \<open>Inr v\<close> together with the state it
  leaves; \<open>try_bind\<close> sequences two statements and \<open>try_except\<close> is
  \<open>try: ... except Exception as e: ...\<close>.
\<close>

definition try_bind ::
  "(error + 'a) \<times> 's \<Rightarrow> ('a \<Rightarrow> 's \<Rightarrow> (error + 'b) \<times> 's) \<Rightarrow> (error + 'b) \<times> 's" where
  "try_bind m f = (case m of (Inl e, s) \<Rightarrow> (Inl e, s) | (Inr a, s) \<Rightarrow> f a s)"

definition try_except ::
  "(error + 'a) \<times> 's \<Rightarrow> (error \<Rightarrow> 's \<Rightarrow> (error + 'a) \<times> 's) \<Rightarrow> (error + 'a) \<times> 's" where
  "try_except m h = (case m of (Inl e, s) \<Rightarrow> h e s | (Inr a, s) \<Rightarrow> (Inr a, s))"

definition exc_str :: "'v env \<Rightarrow> error \<Rightarrow> pystr" where
  "exc_str E e = (case e of ValueError m \<Rightarrow> m | TypeError \<Rightarrow> type_error_str E | ExternalError m \<Rightarrow> m)"

text \<open>\<open>a or b\<close> on an optional string: \<open>None\<close> and the empty string are falsy.\<close>

definition str_or :: "pystr option \<Rightarrow> pystr \<Rightarrow> pystr" where
  "str_or a b = (case a of None \<Rightarrow> b | Some s \<Rightarrow> if s = [] then b else s)"

section \<open>Generation backends (\<open>llms/factory.py\<close>)\<close>

record llm_factory =
  lf_config :: app_config
  llms :: "(pystr \<times> llm_obj) list"

definition new_llm_factory :: "app_config \<Rightarrow> llm_factory" where
  "new_llm_factory cfg = \<lparr>lf_config = cfg, llms = []\<rparr>"

text \<open>Calling a client's constructor for \<open>provider\<close>: it raises, or a new object exists.\<close>

definition construct_llm :: "'v env \<Rightarrow> pystr \<Rightarrow> llm_spec \<Rightarrow> world \<Rightarrow> (error + llm_obj) \<times> world" where
  "construct_llm E provider sp w =
     (case llm_init E sp of
        Some e \<Rightarrow> (Inl e, w)
      | None \<Rightarrow> (let obj = \<lparr>obj_id = length (created w), spec = sp\<rparr>
                 in (Inr obj, w\<lparr>created := created w @ [(provider, obj)]\<rparr>)))"

definition create_llm :: "'v env \<Rightarrow> app_config \<Rightarrow> pystr \<Rightarrow> world \<Rightarrow> (error + llm_obj) \<times> world" where
  "create_llm E cfg provider w =
     (if provider = py ''openai'' then
        construct_llm E provider
          (ChatOpenAI (openai_base_url cfg) (openai_api_key cfg) (openai_model cfg) (1 / 10) 4000) w
      else if provider = py ''deepseek'' then
        construct_llm E provider
          (ChatOpenAI (deepseek_base_url cfg) (deepseek_api_key cfg) (deepseek_model cfg) (1 / 10) 4000) w
      else if provider = py ''gemini'' then
        construct_llm E provider
          (ChatGoogleGenerativeAI (gemini_api_key cfg) (gemini_model cfg) (1 / 10) 4000) w
      else if provider = py ''doubao'' then
        construct_llm E provider
          (ChatOpenAI (doubao_base_url cfg) (doubao_api_key cfg) (doubao_model cfg) (1 / 10) 4000) w
      else (Inl (ValueError (py ''Unsupported LLM provider: '' @ provider)), w))"

definition get_llm ::
  "'v env \<Rightarrow> pystr option \<Rightarrow> llm_factory \<times> world \<Rightarrow> (error + llm_obj) \<times> llm_factory \<times> world" where
  "get_llm E provider0 st =
     (case st of (f, w) \<Rightarrow>
        (let provider = str_or provider0 (llm_provider (lf_config f))
         in case map_of (llms f) provider of
              Some llm \<Rightarrow> (Inr llm, f, w)
            | None \<Rightarrow>
                (case create_llm E (lf_config f) provider w of
                   (Inl e, w') \<Rightarrow> (Inl e, f, w')
                 | (Inr llm, w') \<Rightarrow> (Inr llm, f\<lparr>llms := AList.update provider llm (llms f)\<rparr>, w'))))"

text \<open>Invoking a client: the call is recorded, and the backend answers or raises.\<close>

definition invoke :: "'v env \<Rightarrow> llm_obj \<Rightarrow> prompt \<Rightarrow> world \<Rightarrow> (error + pystr) \<times> world" where
  "invoke E llm p w =
     (llm_invoke E (spec llm) (length (calls w)) p, w\<lparr>calls := calls w @ [(obj_id llm, p)]\<rparr>)"

section \<open>Embeddings and vector stores (\<open>embeddings/factory.py\<close>, \<open>vectorstores/factory.py\<close>)\<close>

definition create_embeddings :: "'v env \<Rightarrow> app_config \<Rightarrow> pystr \<Rightarrow> error + embeddings_spec" where
  "create_embeddings E cfg provider =
     (if provider = py ''openai'' then
        (let sp = OpenAIEmbeddings (embedding_model cfg) (openai_embed_api_key cfg)
                    (openai_embed_base_url cfg) 1000 3
         in case embeddings_init E sp of Some e \<Rightarrow> Inl e | None \<Rightarrow> Inr sp)
      else if provider = py ''hf'' \<or> provider = py ''huggingface'' then
        (let sp = HuggingFaceEmbeddings (hf_embedding_model cfg)
         in case embeddings_init E sp of Some e \<Rightarrow> Inl e | None \<Rightarrow> Inr sp)
      else Inl (ValueError (py ''Unsupported embedding provider: '' @ provider)))"

text \<open>\<open>EmbeddingFactory.get_embeddings\<close>; the argument is the cached \<open>_embeddings\<close>.\<close>

definition get_embeddings ::
  "'v env \<Rightarrow> app_config \<Rightarrow> pystr option \<Rightarrow> embeddings_spec option
     \<Rightarrow> (error + embeddings_spec) \<times> embeddings_spec option" where
  "get_embeddings E cfg provider0 cache =
     (let provider = str_or provider0 (embedding_provider cfg)
      in case cache of
           Some emb \<Rightarrow> (Inr emb, cache)
         | None \<Rightarrow> (case create_embeddings E cfg provider of
                      Inl e \<Rightarrow> (Inl e, None)
                    | Inr emb \<Rightarrow> (Inr emb, Some emb)))"

definition get_vector_store ::
  "'v env \<Rightarrow> app_config \<Rightarrow> pystr \<Rightarrow> embeddings_spec \<Rightarrow> error + vstore" where
  "get_vector_store E cfg collection_name emb =
     (if vector_store cfg = py ''chroma'' then
        (let vs = Chroma collection_name emb (chroma_dir cfg)
         in case vstore_init E vs of Some e \<Rightarrow> Inl e | None \<Rightarrow> Inr vs)
      else if vector_store cfg = py ''milvus'' then
        (let vs = Milvus emb collection_name (milvus_host cfg) (milvus_port cfg)
         in case vstore_init E vs of Some e \<Rightarrow> Inl e | None \<Rightarrow> Inr vs)
      else Inl (ValueError (py ''Unsupported vector store: '' @ vector_store cfg)))"

section \<open>Retrievers (\<open>retrievers/factory.py\<close>, \<open>RerankedRetriever\<close>)\<close>

datatype reranker = MMRReranker real nat | BasicReranker

text \<open>
  The retriever objects the factory returns, by class: the store's own retriever
  (\<open>vector_store.as_retriever\<close>), the repository's reranking wrapper, and LangChain's
  BM25, ensemble, multi-query and contextual-compression retrievers. The constructor of
  the wrapper assigns its two attributes, \<open>base_retriever\<close> and \<open>reranker\<close>; the model
  takes these assignments to succeed.
\<close>

datatype retriever =
    VectorStoreRetriever vstore kwargs
  | RerankedRetriever retriever reranker
  | BM25Retriever "pystr list" "metadata_t list" int
  | EnsembleRetriever "retriever list" "real list"
  | MultiQueryRetriever retriever llm_obj
  | ContextualCompressionRetriever llm_obj retriever

definition rerank_documents ::
  "'v env \<Rightarrow> reranker \<Rightarrow> pystr \<Rightarrow> document list \<Rightarrow> int option \<Rightarrow> error + document list" where
  "rerank_documents E rr query documents top_k =
     (case rr of
        MMRReranker lambda_mult k1 \<Rightarrow> mmr_rerank_documents E lambda_mult query documents top_k
      | BasicReranker \<Rightarrow> basic_rerank_documents query documents top_k)"

text \<open>The results of the member retrievers, in order; the first exception wins.\<close>

fun collect :: "(error + 'a) list \<Rightarrow> error + 'a list" where
  "collect [] = Inr []"
| "collect (Inl e # rs) = Inl e"
| "collect (Inr x # rs) = (case collect rs of Inl e \<Rightarrow> Inl e | Inr xs \<Rightarrow> Inr (x # xs))"

text \<open>
  \<open>retriever.get_relevant_documents(query)\<close>. \<open>RerankedRetriever\<close> calls its reranker
  without \<open>top_k\<close>.
\<close>

fun get_relevant_documents :: "'v env \<Rightarrow> retriever \<Rightarrow> pystr \<Rightarrow> error + document list" where
  "get_relevant_documents E (VectorStoreRetriever vs kw) query = similarity_search E vs query kw"
| "get_relevant_documents E (RerankedRetriever base_retriever rr) query =
     (case get_relevant_documents E base_retriever query of
        Inl e \<Rightarrow> Inl e
      | Inr documents \<Rightarrow> rerank_documents E rr query documents None)"
| "get_relevant_documents E (BM25Retriever texts metadatas k) query =
     bm25_search E texts metadatas k query"
| "get_relevant_documents E (EnsembleRetriever retrievers weights) query =
     (case collect (map (\<lambda>r. get_relevant_documents E r query) retrievers) of
        Inl e \<Rightarrow> Inl e
      | Inr doc_lists \<Rightarrow> ensemble_fuse E weights doc_lists)"
| "get_relevant_documents E (MultiQueryRetriever base_retriever llm) query =
     multi_query_search E (spec llm) (\<lambda>q. get_relevant_documents E base_retriever q) query"
| "get_relevant_documents E (ContextualCompressionRetriever llm base_retriever) query =
     compression_search E (spec llm) (\<lambda>q. get_relevant_documents E base_retriever q) query"

definition create_vector_retriever :: "app_config \<Rightarrow> vstore \<Rightarrow> kwargs \<Rightarrow> retriever" where
  "create_vector_retriever cfg vs search_kwargs =
     (let retriever = VectorStoreRetriever vs search_kwargs
      in if reranker_type cfg = py ''mmr'' then
           RerankedRetriever retriever (MMRReranker (mmr_lambda cfg) 20)
         else if reranker_type cfg = py ''basic'' then
           RerankedRetriever retriever BasicReranker
         else retriever)"

definition kw_get :: "kwargs \<Rightarrow> pystr \<Rightarrow> int \<Rightarrow> int" where
  "kw_get kw k dflt = (case map_of kw k of None \<Rightarrow> dflt | Some v \<Rightarrow> v)"

definition create_bm25_retriever :: "'v env \<Rightarrow> app_config \<Rightarrow> vstore \<Rightarrow> kwargs \<Rightarrow> retriever" where
  "create_bm25_retriever E cfg vs search_kwargs =
     (case similarity_search E vs [] [(py ''k'', 10000)] of
        Inl e \<Rightarrow> create_vector_retriever cfg vs search_kwargs
      | Inr all_docs \<Rightarrow>
          if all_docs = [] then create_vector_retriever cfg vs search_kwargs
          else
            (let texts = map page_content all_docs;
                 metadatas = map metadata all_docs
             in case bm25_from_texts E texts metadatas of
                  Some e \<Rightarrow> create_vector_retriever cfg vs search_kwargs
                | None \<Rightarrow> BM25Retriever texts metadatas
                           (kw_get search_kwargs (py ''k'') (top_k_retrieval cfg))))"

text \<open>\<open>isinstance(r, type(vector_retriever))\<close>, where \<open>vector_retriever\<close> is the store's own retriever.\<close>

fun is_vector_store_retriever :: "retriever \<Rightarrow> bool" where
  "is_vector_store_retriever (VectorStoreRetriever vs kw) = True"
| "is_vector_store_retriever (RerankedRetriever r rr) = False"
| "is_vector_store_retriever (BM25Retriever t m k) = False"
| "is_vector_store_retriever (EnsembleRetriever rs ws) = False"
| "is_vector_store_retriever (MultiQueryRetriever r l) = False"
| "is_vector_store_retriever (ContextualCompressionRetriever l r) = False"

definition create_hybrid_retriever :: "'v env \<Rightarrow> app_config \<Rightarrow> vstore \<Rightarrow> kwargs \<Rightarrow> retriever" where
  "create_hybrid_retriever E cfg vs search_kwargs =
     (let vector_retriever = VectorStoreRetriever vs search_kwargs;
          bm25_retriever = create_bm25_retriever E cfg vs search_kwargs
      in if is_vector_store_retriever bm25_retriever then vector_retriever
         else
           (let weights = [hybrid_alpha cfg, 1 - hybrid_alpha cfg]
            in case ensemble_init E weights of
                 Some e \<Rightarrow> create_vector_retriever cfg vs search_kwargs
               | None \<Rightarrow> EnsembleRetriever [vector_retriever, bm25_retriever] weights))"

text \<open>
  The multi-query and compression retrievers build a new \<open>LLMFactory(self.config)\<close> and ask
  it for the default client.
\<close>

definition create_multi_query_retriever ::
  "'v env \<Rightarrow> app_config \<Rightarrow> vstore \<Rightarrow> kwargs \<Rightarrow> world \<Rightarrow> retriever \<times> world" where
  "create_multi_query_retriever E cfg vs search_kwargs w =
     (case get_llm E None (new_llm_factory cfg, w) of
        (Inl e, f, w') \<Rightarrow> (create_vector_retriever cfg vs search_kwargs, w')
      | (Inr llm, f, w') \<Rightarrow>
          (let base_retriever = VectorStoreRetriever vs search_kwargs
           in case multi_query_from_llm E (spec llm) of
                Some e \<Rightarrow> (create_vector_retriever cfg vs search_kwargs, w')
              | None \<Rightarrow> (MultiQueryRetriever base_retriever llm, w')))"

definition create_contextual_compression_retriever ::
  "'v env \<Rightarrow> app_config \<Rightarrow> vstore \<Rightarrow> kwargs \<Rightarrow> world \<Rightarrow> retriever \<times> world" where
  "create_contextual_compression_retriever E cfg vs search_kwargs w =
     (case get_llm E None (new_llm_factory cfg, w) of
        (Inl e, f, w') \<Rightarrow> (create_vector_retriever cfg vs search_kwargs, w')
      | (Inr llm, f, w') \<Rightarrow>
          (let base_retriever = VectorStoreRetriever vs search_kwargs
           in case extractor_from_llm E (spec llm) of
                Some e \<Rightarrow> (create_vector_retriever cfg vs search_kwargs, w')
              | None \<Rightarrow> (ContextualCompressionRetriever llm base_retriever, w')))"

text \<open>\<open>search_kwargs or {"k": ...}\<close>: \<open>None\<close> and the empty dictionary are falsy.\<close>

definition kwargs_or :: "kwargs option \<Rightarrow> kwargs \<Rightarrow> kwargs" where
  "kwargs_or a b = (case a of None \<Rightarrow> b | Some kw \<Rightarrow> if kw = [] then b else kw)"

definition create_retriever ::
  "'v env \<Rightarrow> app_config \<Rightarrow> vstore \<Rightarrow> pystr option \<Rightarrow> kwargs option \<Rightarrow> world
     \<Rightarrow> (error + retriever) \<times> world" where
  "create_retriever E cfg vs retriever_type0 search_kwargs0 w =
     (let rtype = str_or retriever_type0 (retriever_type cfg);
          search_kwargs = kwargs_or search_kwargs0 [(py ''k'', top_k_retrieval cfg)]
      in if rtype = py ''vector'' then
           (Inr (create_vector_retriever cfg vs search_kwargs), w)
         else if rtype = py ''bm25'' then
           (Inr (create_bm25_retriever E cfg vs search_kwargs), w)
         else if rtype = py ''hybrid'' then
           (Inr (create_hybrid_retriever E cfg vs search_kwargs), w)
         else if rtype = py ''multi_query'' then
           (case create_multi_query_retriever E cfg vs search_kwargs w of (r, w') \<Rightarrow> (Inr r, w'))
         else if rtype = py ''contextual_compression'' then
           (case create_contextual_compression_retriever E cfg vs search_kwargs w of
              (r, w') \<Rightarrow> (Inr r, w'))
         else (Inr (create_vector_retriever cfg vs search_kwargs), w))"


section \<open>The pipeline (\<open>rag/langchain_pipeline.py\<close>)\<close>

record pipeline =
  p_config :: app_config
  p_llm_factory :: llm_factory
  embeddings_cache :: "embeddings_spec option"
  current_provider :: pystr

definition new_pipeline :: "app_config \<Rightarrow> pipeline" where
  "new_pipeline cfg = \<lparr>p_config = cfg, p_llm_factory = new_llm_factory cfg,
     embeddings_cache = None, current_provider = llm_provider cfg\<rparr>"

record source_info =
  src_content :: pystr
  src_metadata :: metadata_t
  src_score :: mval

record query_result =
  r_question :: pystr
  r_answer :: pystr
  r_sources :: "source_info list"
  r_meta :: metadata_t

text \<open>
  The fixed texts of the module, as code points: the answer given when nothing was
  retrieved ("no relevant information was found in the knowledge base ..."), the
  prefix of an error answer ("an error occurred during the query: "), and the labels of
  the context block and of the chat history ("[document", "] source: ", "user: ",
  "assistant: ").
\<close>

definition no_info_answer :: pystr where
  "no_info_answer = [25265, 27465, 65292, 25105, 22312, 30693, 35782, 24211, 20013, 27809,
     26377, 25214, 21040, 30456, 20851, 20449, 24687, 26469, 22238, 31572, 24744, 30340,
     38382, 39064, 12290, 35831, 23581, 35797, 19978, 20256, 30456, 20851, 25991, 26723,
     25110, 37325, 26032, 34920, 36848, 24744, 30340, 38382, 39064, 12290]"

definition error_prefix :: pystr where
  "error_prefix = [26597, 35810, 36807, 31243, 20013, 21457, 29983, 38169, 35823, 58, 32]"

definition doc_label :: pystr where
  "doc_label = [91, 25991, 26723]"

definition source_label :: pystr where
  "source_label = [93, 32, 26469, 28304, 58, 32]"

definition user_label :: pystr where
  "user_label = [29992, 25143, 58, 32]"

definition assistant_label :: pystr where
  "assistant_label = [21161, 25163, 58, 32]"

text \<open>\<open>str\<close> of an integer and of a metadata value, as an f-string formats them.\<close>

fun str_nat :: "nat \<Rightarrow> pystr" where
  "str_nat n = (if n < 10 then [48 + n] else str_nat (n div 10) @ [48 + n mod 10])"

declare str_nat.simps [simp del]

definition str_int :: "int \<Rightarrow> pystr" where
  "str_int i = (if i < 0 then 45 # str_nat (nat (- i)) else str_nat (nat i))"

definition str_mval :: "'v env \<Rightarrow> mval \<Rightarrow> pystr" where
  "str_mval E v = (case v of MText s \<Rightarrow> s | MInt i \<Rightarrow> str_int i | MFloat r \<Rightarrow> float_str E r
                   | MBool b \<Rightarrow> (if b then py ''True'' else py ''False''))"

definition format_context :: "'v env \<Rightarrow> document list \<Rightarrow> pystr" where
  "format_context E documents =
     join [10, 10]
       (map (\<lambda>(i, doc).
               (let source = md_get (metadata doc) (py ''source'') (MText (py ''Unknown''));
                    text = strip (page_content doc)
                in doc_label @ str_nat i @ source_label @ str_mval E source @ [10] @ text))
            (enumerate 1 documents))"

definition format_sources :: "document list \<Rightarrow> source_info list" where
  "format_sources documents =
     map (\<lambda>doc. \<lparr>src_content = page_content doc, src_metadata = metadata doc,
                  src_score = md_get (metadata doc) (py ''score'') (MFloat 0)\<rparr>) documents"

text \<open>A chat history is \<open>List[Dict[str, str]]\<close>, \<open>None\<close> by default.\<close>

type_synonym chat_entry = "(pystr \<times> pystr) list"

definition truthy_list :: "'a list option \<Rightarrow> bool" where
  "truthy_list xs = (case xs of None \<Rightarrow> False | Some l \<Rightarrow> l \<noteq> [])"

definition last_n :: "nat \<Rightarrow> 'a list \<Rightarrow> 'a list" where
  "last_n n xs = drop (length xs - n) xs"

definition format_chat_history :: "chat_entry list \<Rightarrow> pystr" where
  "format_chat_history chat_history =
     (if chat_history = [] then []
      else join [10]
        (concat (map (\<lambda>entry.
            (case (map_of entry (py ''question''), map_of entry (py ''answer'')) of
               (Some q, Some a) \<Rightarrow> [user_label @ q, assistant_label @ a]
             | _ \<Rightarrow> []))
          (last_n 5 chat_history))))"

text \<open>The state of an operation of the pipeline: the pipeline object and the process.\<close>

type_synonym pstate = "pipeline \<times> world"

definition p_get_llm :: "'v env \<Rightarrow> pystr option \<Rightarrow> pstate \<Rightarrow> (error + llm_obj) \<times> pstate" where
  "p_get_llm E provider st =
     (case st of (P, w) \<Rightarrow>
        (case get_llm E provider (p_llm_factory P, w) of
           (r, f', w') \<Rightarrow> (r, (P\<lparr>p_llm_factory := f'\<rparr>, w'))))"

definition p_get_embeddings :: "'v env \<Rightarrow> pstate \<Rightarrow> (error + embeddings_spec) \<times> pstate" where
  "p_get_embeddings E st =
     (case st of (P, w) \<Rightarrow>
        (case get_embeddings E (p_config P) None (embeddings_cache P) of
           (r, c') \<Rightarrow> (r, (P\<lparr>embeddings_cache := c'\<rparr>, w))))"

definition p_create_retriever ::
  "'v env \<Rightarrow> vstore \<Rightarrow> pystr option \<Rightarrow> kwargs option \<Rightarrow> pstate \<Rightarrow> (error + retriever) \<times> pstate" where
  "p_create_retriever E vs rtype kw st =
     (case st of (P, w) \<Rightarrow>
        (case create_retriever E (p_config P) vs rtype kw w of (r, w') \<Rightarrow> (r, (P, w'))))"

definition p_invoke :: "'v env \<Rightarrow> llm_obj \<Rightarrow> prompt \<Rightarrow> pstate \<Rightarrow> (error + pystr) \<times> pstate" where
  "p_invoke E llm p st =
     (case st of (P, w) \<Rightarrow> (case invoke E llm p w of (r, w') \<Rightarrow> (r, (P, w'))))"

text \<open>\<open>time.time()\<close>: the next reading of the clock.\<close>

definition time_time :: "'v env \<Rightarrow> world \<Rightarrow> real \<times> world" where
  "time_time E w = (clock E (ticks w), w\<lparr>ticks := Suc (ticks w)\<rparr>)"

text \<open>
  The statements of \<open>query\<close> and \<open>query_with_history\<close> from the top of the \<open>try\<close> block to
  the creation of the retriever.
\<close>

definition prepare ::
  "'v env \<Rightarrow> pystr \<Rightarrow> int \<Rightarrow> pystr option \<Rightarrow> pstate
     \<Rightarrow> (error + (pystr \<times> llm_obj \<times> retriever)) \<times> pstate" where
  "prepare E notebook_id top_k provider st =
     (let provider_used = str_or provider (current_provider (fst st))
      in try_bind (p_get_llm E (Some provider_used) st) (\<lambda>llm st.
         try_bind (p_get_embeddings E st) (\<lambda>embeddings st.
         try_bind (get_vector_store E (p_config (fst st)) (py ''notebook_'' @ notebook_id) embeddings, st)
           (\<lambda>store st.
         try_bind (p_create_retriever E store None (Some [(py ''k'', top_k)]) st)
           (\<lambda>retriever st. (Inr (provider_used, llm, retriever), st))))))"

text \<open>The \<open>except Exception as e\<close> branch of both query operations.\<close>

definition error_response ::
  "'v env \<Rightarrow> pystr \<Rightarrow> pystr option \<Rightarrow> real \<Rightarrow> error \<Rightarrow> pstate \<Rightarrow> (error + query_result) \<times> pstate" where
  "error_response E question provider start_time e st =
     (case st of (P, w) \<Rightarrow>
        (case time_time E w of (t, w') \<Rightarrow>
           (Inr \<lparr>r_question = question,
                 r_answer = error_prefix @ exc_str E e,
                 r_sources = [],
                 r_meta = [(py ''provider'', MText (str_or provider (current_provider P))),
                         (py ''error'', MText (exc_str E e)),
                         (py ''total_time'', MFloat (t - start_time))]\<rparr>,
            (P, w'))))"

text \<open>The two ways \<open>query\<close> ends once the documents are retrieved.\<close>

definition query_empty ::
  "'v env \<Rightarrow> pystr \<Rightarrow> pystr \<Rightarrow> real \<Rightarrow> pstate \<Rightarrow> (error + query_result) \<times> pstate" where
  "query_empty E question provider_used start_time st =
     (case st of (P, w) \<Rightarrow>
        (case time_time E w of (t1, w1) \<Rightarrow>
           (case time_time E w1 of (t2, w2) \<Rightarrow>
              (Inr \<lparr>r_question = question,
                    r_answer = no_info_answer,
                    r_sources = [],
                    r_meta = [(py ''provider'', MText provider_used),
                              (py ''retrieval_time'', MFloat (t1 - start_time)),
                              (py ''total_time'', MFloat (t2 - start_time)),
                              (py ''retrieved_docs'', MInt 0)]\<rparr>,
               (P, w2)))))"

definition query_generate ::
  "'v env \<Rightarrow> pystr \<Rightarrow> pystr \<Rightarrow> llm_obj \<Rightarrow> document list \<Rightarrow> real \<Rightarrow> pstate
     \<Rightarrow> (error + query_result) \<times> pstate" where
  "query_generate E question provider_used llm relevant_docs start_time st =
     (let context = format_context E relevant_docs
      in case st of (P, w) \<Rightarrow>
           (case time_time E w of (t1, w1) \<Rightarrow>
              (let retrieval_time = t1 - start_time
               in try_bind
                    (p_invoke E llm
                       (Chain Qa [(py ''context'', context), (py ''question'', question)]) (P, w1))
                    (\<lambda>answer st2.
                       (case st2 of (P2, w2) \<Rightarrow>
                          (case time_time E w2 of (t2, w3) \<Rightarrow>
                             (let total_time = t2 - start_time;
                                  source_list = format_sources relevant_docs
                              in (Inr \<lparr>r_question = question,
                                        r_answer = answer,
                                        r_sources = source_list,
                                        r_meta = [(py ''provider'', MText provider_used),
                                                  (py ''retrieval_time'', MFloat retrieval_time),
                                                  (py ''generation_time'', MFloat (total_time - retrieval_time)),
                                                  (py ''total_time'', MFloat total_time),
                                                  (py ''retrieved_docs'', MInt (int (length relevant_docs))),
                                                  (py ''context_length'', MInt (int (length context)))]\<rparr>,
                                  (P2, w3)))))))))"

definition query_answer ::
  "'v env \<Rightarrow> pystr \<Rightarrow> real \<Rightarrow> pystr \<times> llm_obj \<times> retriever \<Rightarrow> pstate
     \<Rightarrow> (error + query_result) \<times> pstate" where
  "query_answer E question start_time plr st =
     (case plr of (provider_used, llm, retriever) \<Rightarrow>
        try_bind (get_relevant_documents E retriever question, st) (\<lambda>relevant_docs st1.
          if relevant_docs = [] then query_empty E question provider_used start_time st1
          else query_generate E question provider_used llm relevant_docs start_time st1))"

definition query ::
  "'v env \<Rightarrow> pystr \<Rightarrow> pystr \<Rightarrow> int \<Rightarrow> pystr option \<Rightarrow> pstate \<Rightarrow> (error + query_result) \<times> pstate" where
  "query E question notebook_id top_k provider st =
     (case st of (P, w) \<Rightarrow>
        (case time_time E w of (start_time, w0) \<Rightarrow>
           try_except
             (try_bind (prepare E notebook_id top_k provider (P, w0))
                (query_answer E question start_time))
             (error_response E question provider start_time)))"

definition rewrite_question_with_history ::
  "'v env \<Rightarrow> pystr \<Rightarrow> chat_entry list option \<Rightarrow> llm_obj \<Rightarrow> world \<Rightarrow> pystr \<times> world" where
  "rewrite_question_with_history E question chat_history llm w =
     (if \<not> truthy_list chat_history then (question, w)
      else
        (let history_text = format_chat_history (the chat_history)
         in case invoke E llm
                   (Chain Question_rewrite
                      [(py ''chat_history'', history_text), (py ''question'', question)]) w of
              (Inr rewritten, w') \<Rightarrow> (strip rewritten, w')
            | (Inl e, w') \<Rightarrow> (question, w')))"

definition empty_response ::
  "'v env \<Rightarrow> pystr \<Rightarrow> pystr \<Rightarrow> real \<Rightarrow> world \<Rightarrow> query_result \<times> world" where
  "empty_response E question provider start_time w =
     (case time_time E w of (t, w') \<Rightarrow>
        (\<lparr>r_question = question,
          r_answer = no_info_answer,
          r_sources = [],
          r_meta = [(py ''provider'', MText provider),
                  (py ''total_time'', MFloat (t - start_time)),
                  (py ''retrieved_docs'', MInt 0)]\<rparr>, w'))"

definition history_generate ::
  "'v env \<Rightarrow> pystr \<Rightarrow> chat_entry list option \<Rightarrow> pystr \<Rightarrow> llm_obj \<Rightarrow> document list \<Rightarrow> real
     \<Rightarrow> pstate \<Rightarrow> (error + query_result) \<times> pstate" where
  "history_generate E question chat_history provider_used llm relevant_docs start_time st =
     (let context = format_context E relevant_docs;
          history_text = format_chat_history (case chat_history of None \<Rightarrow> [] | Some h \<Rightarrow> h)
      in case st of (P, w) \<Rightarrow>
           (case time_time E w of (t1, w1) \<Rightarrow>
              (let retrieval_time = t1 - start_time
               in try_bind
                    (p_invoke E llm
                       (Chain Conversational_qa
                          [(py ''context'', context), (py ''chat_history'', history_text),
                           (py ''question'', question)]) (P, w1))
                    (\<lambda>answer st2.
                       (case st2 of (P2, w2) \<Rightarrow>
                          (case time_time E w2 of (t2, w3) \<Rightarrow>
                             (let total_time = t2 - start_time;
                                  source_list = format_sources relevant_docs
                              in (Inr \<lparr>r_question = question,
                                        r_answer = answer,
                                        r_sources = source_list,
                                        r_meta = [(py ''provider'', MText provider_used),
                                                  (py ''retrieval_time'', MFloat retrieval_time),
                                                  (py ''generation_time'', MFloat (total_time - retrieval_time)),
                                                  (py ''total_time'', MFloat total_time),
                                                  (py ''retrieved_docs'', MInt (int (length relevant_docs))),
                                                  (py ''context_length'', MInt (int (length context))),
                                                  (py ''has_history'', MBool (truthy_list chat_history))]\<rparr>,
                                  (P2, w3)))))))))"

definition history_answer ::
  "'v env \<Rightarrow> pystr \<Rightarrow> chat_entry list option \<Rightarrow> real \<Rightarrow> pystr \<times> llm_obj \<times> retriever \<Rightarrow> pstate
     \<Rightarrow> (error + query_result) \<times> pstate" where
  "history_answer E question chat_history start_time plr st =
     (case plr of (provider_used, llm, retriever) \<Rightarrow>
        try_bind (get_relevant_documents E retriever question, st) (\<lambda>relevant_docs st1.
          if relevant_docs = [] then
            (case st1 of (P, w) \<Rightarrow>
               (case empty_response E question provider_used start_time w of
                  (r, w') \<Rightarrow> (Inr r, (P, w'))))
          else history_generate E question chat_history provider_used llm relevant_docs
                 start_time st1))"

text \<open>
  In \<open>query_with_history\<close> the variable \<open>question\<close> is reassigned by the rewriting step, which
  itself never raises: an exception raised before it is reported with the question as
  given, an exception raised after it with the rewritten question.
\<close>

definition query_with_history ::
  "'v env \<Rightarrow> pystr \<Rightarrow> pystr \<Rightarrow> chat_entry list option \<Rightarrow> int \<Rightarrow> pystr option \<Rightarrow> pstate
     \<Rightarrow> (error + query_result) \<times> pstate" where
  "query_with_history E question notebook_id chat_history top_k provider st =
     (case st of (P, w) \<Rightarrow>
        (case time_time E w of (start_time, w0) \<Rightarrow>
           (case prepare E notebook_id top_k provider (P, w0) of
              (Inl e, st1) \<Rightarrow> error_response E question provider start_time e st1
            | (Inr (provider_used, llm, retriever), (P1, w1)) \<Rightarrow>
                (case (if truthy_list chat_history
                       then rewrite_question_with_history E question chat_history llm w1
                       else (question, w1)) of
                   (question', w2) \<Rightarrow>
                     try_except
                       (history_answer E question' chat_history start_time
                          (provider_used, llm, retriever) (P1, w2))
                       (error_response E question' provider start_time)))))"

definition set_provider :: "'v env \<Rightarrow> pystr \<Rightarrow> pstate \<Rightarrow> (error + bool) \<times> pstate" where
  "set_provider E provider st =
     try_except
       (try_bind (p_get_llm E (Some provider) st) (\<lambda>llm st.
        try_bind (p_invoke E llm (Raw (py ''Hello'')) st) (\<lambda>test_response st.
          if test_response \<noteq> [] then
            (case st of (P, w) \<Rightarrow> (Inr True, (P\<lparr>current_provider := provider\<rparr>, w)))
          else (Inr False, st))))
       (\<lambda>e st. (Inr False, st))"


section \<open>A default configuration and a small environment\<close>

text \<open>\<open>AppConfig()\<close> with no environment variable set.\<close>

definition default_config :: app_config where
  "default_config = \<lparr>
     vector_store = py ''chroma'',
     chroma_dir = py ''app/storage/chroma'',
     milvus_host = py ''localhost'',
     milvus_port = py ''19530'',
     retriever_type = py ''hybrid'',
     hybrid_alpha = 6 / 10,
     reranker_type = py ''mmr'',
     mmr_lambda = 7 / 10,
     top_k_retrieval = 10,
     embedding_provider = py ''openai'',
     embedding_model = py ''text-embedding-3-large'',
     openai_embed_base_url = py ''https://api.openai.com/v1'',
     openai_embed_api_key = [],
     hf_embedding_model = py ''BAAI/bge-large-zh-v1.5'',
     llm_provider = py ''openai'',
     openai_base_url = py ''https://api.openai.com/v1'',
     openai_api_key = [],
     openai_model = py ''gpt-4o-mini'',
     deepseek_base_url = py ''https://api.deepseek.com/v1'',
     deepseek_api_key = [],
     deepseek_model = py ''deepseek-chat'',
     gemini_api_key = [],
     gemini_model = py ''gemini-1.5-pro'',
     doubao_base_url = py ''https://ark.cn-beijing.volces.com/api/v3'',
     doubao_api_key = [],
     doubao_model = py ''ep-20250609121409-9882n''\<rparr>"

definition initial_world :: world where
  "initial_world = \<lparr>created = [], calls = [], ticks = 0\<rparr>"

text \<open>
  A weighted reciprocal-rank fusion, the kind of fusion an ensemble retriever performs:
  a passage scores the sum over the lists of weight / (rank + 60), passages are identified
  by their content, and the result is sorted by descending score, stably.
\<close>

definition rrf_score :: "real list \<Rightarrow> document list list \<Rightarrow> pystr \<Rightarrow> real" where
  "rrf_score ws ls key =
     sum_list (map (\<lambda>(w, l).
        sum_list (map (\<lambda>(rank, doc). if page_content doc = key then w / (real rank + 60) else 0)
                      (enumerate 1 l)))
       (zip ws ls))"

fun unique_by_content :: "pystr list \<Rightarrow> document list \<Rightarrow> document list" where
  "unique_by_content seen [] = []"
| "unique_by_content seen (d # ds) =
     (if page_content d \<in> set seen then unique_by_content seen ds
      else d # unique_by_content (page_content d # seen) ds)"

definition rrf_fuse :: "real list \<Rightarrow> document list list \<Rightarrow> document list" where
  "rrf_fuse ws ls =
     rev (sort_key (\<lambda>d. rrf_score ws ls (page_content d)) (rev (unique_by_content [] (concat ls))))"

text \<open>
  Two passages; the store returns them as \<open>[doc_a, doc_b]\<close>, the lexical index as
  \<open>[doc_b, doc_a]\<close>, and \<open>doc_b\<close> is the more similar to the query in the TF-IDF space and
  carries the higher score.
\<close>

definition doc_a :: document where
  "doc_a = \<lparr>page_content = py ''a'', metadata = [(py ''score'', MFloat 1)]\<rparr>"

definition doc_b :: document where
  "doc_b = \<lparr>page_content = py ''b'', metadata = [(py ''score'', MFloat 2)]\<rparr>"

definition demo_cosine :: "nat \<Rightarrow> nat \<Rightarrow> real" where
  "demo_cosine i j =
     (if i = j then 1
      else if (i = 0 \<and> j = 2) \<or> (i = 2 \<and> j = 0) then 1 / 2
      else 1 / 4)"

definition demo_env :: "nat env" where
  "demo_env = \<lparr>
     fit_transform = (\<lambda>texts. Inr (\<lambda>i. i)),
     cosine_similarity = demo_cosine,
     similarity_search = (\<lambda>vs q kw. Inr [doc_a, doc_b]),
     bm25_from_texts = (\<lambda>texts mds. None),
     bm25_search = (\<lambda>texts mds k q. Inr [doc_b, doc_a]),
     ensemble_init = (\<lambda>ws. None),
     ensemble_fuse = (\<lambda>ws ls. Inr (rrf_fuse ws ls)),
     multi_query_from_llm = (\<lambda>sp. None),
     multi_query_search = (\<lambda>sp base q. base q),
     extractor_from_llm = (\<lambda>sp. None),
     compression_search = (\<lambda>sp base q. base q),
     llm_init = (\<lambda>sp. None),
     llm_invoke = (\<lambda>sp n p. Inr (py ''ok'')),
     embeddings_init = (\<lambda>sp. None),
     vstore_init = (\<lambda>vs. None),
     clock = (\<lambda>n. real n),
     float_str = (\<lambda>r. py ''0.0''),
     type_error_str = py ''unorderable''\<rparr>"

definition demo_store :: vstore where
  "demo_store = Chroma (py ''notebook_n'')
     (OpenAIEmbeddings (py ''text-embedding-3-large'') [] (py ''https://api.openai.com/v1'') 1000 3)
     (py ''app/storage/chroma'')"

text \<open>The same environment with an empty store, and with a generation backend that fails.\<close>

definition empty_env :: "nat env" where
  "empty_env = demo_env\<lparr>similarity_search := (\<lambda>vs q kw. Inr [])\<rparr>"

definition failing_env :: "nat env" where
  "failing_env = demo_env\<lparr>llm_invoke := (\<lambda>sp n p. Inl (ExternalError (py ''timeout'')))\<rparr>"

definition demo_llm :: llm_obj where
  "demo_llm = \<lparr>obj_id = 0,
     spec = ChatOpenAI (py ''https://api.openai.com/v1'') [] (py ''gpt-4o-mini'') (1 / 10) 4000\<rparr>"

definition no_bm25_env :: "nat env" where
  "no_bm25_env = demo_env\<lparr>bm25_from_texts := (\<lambda>texts mds. Some (ExternalError (py ''no index'')))\<rparr>"

text \<open>A sequence of \<open>get_llm\<close> requests made to one factory object.\<close>

fun get_llm_many :: "'v env \<Rightarrow> pystr option list \<Rightarrow> llm_factory \<times> world \<Rightarrow> llm_factory \<times> world" where
  "get_llm_many E [] st = st"
| "get_llm_many E (p # ps) st = get_llm_many E ps (snd (get_llm E p st))"

text \<open>How many clients have been constructed for a provider name.\<close>

definition constructions :: "pystr \<Rightarrow> world \<Rightarrow> nat" where
  "constructions name w = length (filter (\<lambda>c. fst c = name) (created w))"

section \<open>Properties of the rerankers\<close>

subsection \<open>The first maximum\<close>

lemma max_from_step:
  assumes sp: "b' # xs = pre @ m # post"
    and lt: "\<forall>y\<in>set pre. key y < key m"
    and le: "\<forall>y\<in>set post. key y \<le> (key m :: real)"
    and b': "b' = (if key b < key x then x else b)"
  shows "\<exists>pre2 post2. b # x # xs = pre2 @ m # post2
     \<and> (\<forall>y\<in>set pre2. key y < key m) \<and> (\<forall>y\<in>set post2. key y \<le> key m)"
proof -
  have ble: "key b' \<le> key m"
  proof -
    have "b' \<in> set (pre @ m # post)" using sp by (metis list.set_intros(1))
    then show ?thesis using lt le by auto
  qed
  show ?thesis
  proof (cases "key b < key x")
    case True
    then have "b # x # xs = (b # pre) @ m # post" using sp b' by simp
    moreover have "\<forall>y\<in>set (b # pre). key y < key m" using True ble lt b' by auto
    ultimately show ?thesis using le by blast
  next
    case False
    then have bb: "b' = b" using b' by simp
    show ?thesis
    proof (cases pre)
      case Nil
      have mb: "m = b" and xp: "post = xs" using sp Nil bb by auto
      have "b # x # xs = [] @ m # (x # post)" using mb xp by simp
      moreover have "\<forall>y\<in>set (x # post). key y \<le> key m"
        using False le mb by auto
      ultimately show ?thesis by (metis empty_iff empty_set)
    next
      case (Cons p pre')
      then have pb: "p = b" and xs: "xs = pre' @ m # post" using sp bb by auto
      have "b # x # xs = (b # x # pre') @ m # post" using xs by simp
      moreover have "\<forall>y\<in>set (b # x # pre'). key y < key m"
        using lt Cons pb False by auto
      ultimately show ?thesis using le by blast
    qed
  qed
qed

lemma max_from_split:
  "\<exists>pre post. b # xs = pre @ max_from key b xs # post
     \<and> (\<forall>y\<in>set pre. key y < key (max_from key b xs))
     \<and> (\<forall>y\<in>set post. key y \<le> key (max_from key b xs))"
proof (induction xs arbitrary: b)
  case Nil
  have "[b] = [] @ max_from key b [] # []" by simp
  then show ?case by (metis empty_iff empty_set)
next
  case (Cons x xs)
  define b' where "b' = (if key b < key x then x else b)"
  define m where "m = max_from key b' xs"
  from Cons.IH [of b'] obtain pre post where
    sp: "b' # xs = pre @ m # post" and
    lt: "\<forall>y\<in>set pre. key y < key m" and
    le: "\<forall>y\<in>set post. key y \<le> key m" unfolding m_def by blast
  have m: "max_from key b (x # xs) = m" by (simp add: m_def b'_def)
  show ?case unfolding m using max_from_step [OF sp lt le b'_def] .
qed

lemma first_max_index:
  assumes ne: "xs \<noteq> []" and so: "sorted_wrt (<) xs"
    and ms: "ms = map (\<lambda>i. (i, f i)) xs"
    and b: "b = fst (max_from snd (hd ms) (tl ms))"
  shows "b \<in> set xs \<and> (\<forall>i\<in>set xs. f i \<le> f b \<and> (f i = f b \<longrightarrow> b \<le> (i::nat)))"
proof -
  define m where "m = max_from snd (hd ms) (tl ms)"
  have msne: "ms \<noteq> []" using ne ms by simp
  from max_from_split [of "hd ms" "tl ms" snd] obtain pre post where
    sp: "ms = pre @ m # post" and
    lt: "\<forall>y\<in>set pre. snd y < snd m" and
    le: "\<forall>y\<in>set post. snd y \<le> snd m"
    using msne unfolding m_def by auto
  have min: "m \<in> set ms" using sp by simp
  then have mb: "m = (b, f b)" using ms b m_def by auto
  have bin: "b \<in> set xs" using min ms mb by auto
  have xs: "xs = map fst pre @ b # map fst post"
  proof -
    have "xs = map fst ms" using ms by (simp add: comp_def)
    then show ?thesis using sp mb by simp
  qed
  have allms: "\<forall>y\<in>set ms. snd y = f (fst y)" using ms by auto
  have pre: "\<forall>y\<in>set pre. snd y = f (fst y)" using allms sp by simp
  have post: "\<forall>y\<in>set post. snd y = f (fst y)" using allms sp by simp
  have after: "\<forall>i\<in>set (map fst post). b < i"
    using so unfolding xs by (simp add: sorted_wrt_append)
  have "\<forall>i\<in>set xs. f i \<le> f b \<and> (f i = f b \<longrightarrow> b \<le> i)"
  proof
    fix i assume "i \<in> set xs"
    then consider "i \<in> set (map fst pre)" | "i = b" | "i \<in> set (map fst post)"
      using xs by (metis Un_iff set_ConsD set_append)
    then show "f i \<le> f b \<and> (f i = f b \<longrightarrow> b \<le> i)"
    proof cases
      case 1
      then obtain y where y: "y \<in> set pre" "fst y = i" by auto
      then have "snd y = f i" using pre by auto
      then have "f i < f b" using lt y mb by auto
      then show ?thesis by simp
    next
      case 2
      then show ?thesis by simp
    next
      case 3
      then obtain y where y: "y \<in> set post" "fst y = i" by auto
      then have "snd y = f i" using post by auto
      then have "f i \<le> f b" using le y mb by auto
      moreover have "b < i" using after 3 by auto
      ultimately show ?thesis by simp
    qed
  qed
  then show ?thesis using bin by simp
qed

lemma best_index_spec:
  assumes "remaining \<noteq> []" and "sorted_wrt (<) remaining"
  shows "best_index lam qs ds sel remaining \<in> set remaining \<and>
    (\<forall>i\<in>set remaining.
       mmr_score lam qs ds sel i \<le> mmr_score lam qs ds sel (best_index lam qs ds sel remaining) \<and>
       (mmr_score lam qs ds sel i = mmr_score lam qs ds sel (best_index lam qs ds sel remaining)
          \<longrightarrow> best_index lam qs ds sel remaining \<le> i))"
  using first_max_index [OF assms refl, of "best_index lam qs ds sel remaining" "mmr_score lam qs ds sel"]
  by (simp add: best_index_def Let_def)

lemma zip_map_same: "zip xs (map f xs) = map (\<lambda>i. (i, f i)) xs"
  by (induction xs) auto

lemma np_argmax_spec:
  assumes "0 < n"
  shows "\<exists>first. np_argmax (map qs [0..<n]) = Inr first \<and> first < n \<and>
    (\<forall>i<n. qs i \<le> qs first \<and> (qs i = qs first \<longrightarrow> first \<le> i))"
proof -
  define ms where "ms = map (\<lambda>i. (i, qs i)) [0..<n]"
  have en: "enumerate 0 (map qs [0..<n]) = ms"
    by (simp add: ms_def enumerate_eq_zip zip_map_same)
  have ne: "[0..<n] \<noteq> []" using assms by simp
  have msne: "ms \<noteq> []" using ne ms_def by simp
  define first where "first = fst (max_from snd (hd ms) (tl ms))"
  have r: "np_argmax (map qs [0..<n]) = Inr first"
    using msne by (cases ms) (auto simp: np_argmax_def py_max_def en first_def simp del: upt.simps)
  from first_max_index [OF ne _ ms_def first_def]
  have "first \<in> set [0..<n] \<and> (\<forall>i\<in>set [0..<n]. qs i \<le> qs first \<and> (qs i = qs first \<longrightarrow> first \<le> i))"
    by simp
  then show ?thesis using r by auto
qed

lemma loop_length_arith:
  fixes t :: int and k n m :: nat
  assumes "int k < t" and "0 < n"
    and "m = (if int k + 1 < t then min (nat t - (k + 1)) (n - 1) else 0)"
  shows "Suc m = min (nat t - k) n"
  using assms by (cases "int k + 1 < t") (simp_all only: if_True if_False, arith+)

lemma mmr_loop_spec:
  assumes "sorted_wrt (<) rem" and "set sel \<inter> set rem = {}"
  shows "\<exists>taken. mmr_loop l q d t sel rem = sel @ taken \<and> distinct taken \<and> set taken \<subseteq> set rem
     \<and> length taken = (if int (length sel) < t then min (nat t - length sel) (length rem) else 0)
     \<and> (\<forall>j < length taken. \<forall>i \<in> set rem - set (take j taken).
          mmr_score l q d (sel @ take j taken) i \<le> mmr_score l q d (sel @ take j taken) (taken ! j)
          \<and> (mmr_score l q d (sel @ take j taken) i = mmr_score l q d (sel @ take j taken) (taken ! j)
               \<longrightarrow> taken ! j \<le> i))"
  using assms
proof (induction l q d t sel rem rule: mmr_loop.induct)
  case (1 l q d t sel rem)
  show ?case
  proof (cases "int (length sel) < t \<and> rem \<noteq> []")
    case False
    then have "mmr_loop l q d t sel rem = sel @ []" by (simp add: mmr_loop.simps)
    moreover have "(if int (length sel) < t then min (nat t - length sel) (length rem) else 0) = 0"
      using False by auto
    ultimately show ?thesis by (metis distinct.simps(1) empty_subsetI list.size(3) not_less_zero set_empty2 append_Nil2)
  next
    case True
    define b where "b = best_index l q d sel rem"
    have dr: "distinct rem" and sr: "sorted rem" using "1.prems"(1) strict_sorted_iff by auto
    have bs: "b \<in> set rem" and
      bmax: "\<forall>i\<in>set rem. mmr_score l q d sel i \<le> mmr_score l q d sel b \<and>
              (mmr_score l q d sel i = mmr_score l q d sel b \<longrightarrow> b \<le> i)"
      using best_index_spec [of rem l q d sel] True "1.prems"(1) unfolding b_def by auto
    have s': "sorted_wrt (<) (remove1 b rem)"
      using dr sr by (simp add: strict_sorted_iff sorted_remove1)
    have d': "set (sel @ [b]) \<inter> set (remove1 b rem) = {}"
      using "1.prems"(2) dr by auto
    from "1.IH" [OF True b_def s' d'] obtain taken' where
      eq: "mmr_loop l q d t (sel @ [b]) (remove1 b rem) = (sel @ [b]) @ taken'" and
      dt: "distinct taken'" and
      sub: "set taken' \<subseteq> set (remove1 b rem)" and
      len: "length taken' = (if int (length (sel @ [b])) < t
              then min (nat t - length (sel @ [b])) (length (remove1 b rem)) else 0)" and
      step: "\<forall>j < length taken'. \<forall>i \<in> set (remove1 b rem) - set (take j taken').
          mmr_score l q d ((sel @ [b]) @ take j taken') i
            \<le> mmr_score l q d ((sel @ [b]) @ take j taken') (taken' ! j)
          \<and> (mmr_score l q d ((sel @ [b]) @ take j taken') i
               = mmr_score l q d ((sel @ [b]) @ take j taken') (taken' ! j)
               \<longrightarrow> taken' ! j \<le> i)"
      by blast
    let ?taken = "b # taken'"
    have r1: "mmr_loop l q d t sel rem = sel @ ?taken"
      using True eq by (subst mmr_loop.simps) (simp add: b_def Let_def)
    have r2: "distinct ?taken" using dt sub dr by auto
    have r3: "set ?taken \<subseteq> set rem" using bs sub dr by auto
    have lr: "length (remove1 b rem) = length rem - 1" using bs by (simp add: length_remove1)
    have rpos: "0 < length rem" using True by simp
    have r4: "length ?taken = (if int (length sel) < t then min (nat t - length sel) (length rem) else 0)"
    proof -
      have ls: "int (length sel) < t" using True by simp
      have l2: "length taken' = (if int (length sel) + 1 < t
              then min (nat t - (length sel + 1)) (length rem - 1) else 0)"
        using len lr by (simp add: add.commute)
      have "Suc (length taken') = min (nat t - length sel) (length rem)"
        using loop_length_arith [OF ls rpos l2] .
      then show ?thesis using ls by simp
    qed
    have r5: "\<forall>j < length ?taken. \<forall>i \<in> set rem - set (take j ?taken).
          mmr_score l q d (sel @ take j ?taken) i \<le> mmr_score l q d (sel @ take j ?taken) (?taken ! j)
          \<and> (mmr_score l q d (sel @ take j ?taken) i = mmr_score l q d (sel @ take j ?taken) (?taken ! j)
               \<longrightarrow> ?taken ! j \<le> i)"
    proof (intro allI impI ballI)
      fix j i assume j: "j < length ?taken" and i: "i \<in> set rem - set (take j ?taken)"
      show "mmr_score l q d (sel @ take j ?taken) i \<le> mmr_score l q d (sel @ take j ?taken) (?taken ! j)
          \<and> (mmr_score l q d (sel @ take j ?taken) i = mmr_score l q d (sel @ take j ?taken) (?taken ! j)
               \<longrightarrow> ?taken ! j \<le> i)"
      proof (cases j)
        case 0
        then show ?thesis using bmax i by simp
      next
        case (Suc j')
        have j': "j' < length taken'" using j Suc by simp
        have i': "i \<in> set (remove1 b rem) - set (take j' taken')" using i Suc dr by auto
        show ?thesis using step j' i' Suc by simp
      qed
    qed
    show ?thesis using r1 r2 r3 r4 r5 by blast
  qed
qed

lemma mmr_score_marginal:
  assumes "S \<noteq> []"
  shows "mmr_score lam qs ds S i = marginal_relevance lam qs ds S i"
proof -
  obtain x rest where S: "S = x # rest" using assms by (cases S) auto
  have "np_max (map (ds i) S) = fold max (map (ds i) rest) (ds i x)"
    by (simp add: np_max_def S)
  also have "\<dots> = Max (set (ds i x # map (ds i) rest))"
    by (rule Max.set_eq_fold [symmetric])
  also have "\<dots> = Max (ds i ` set S)" by (simp add: S)
  finally show ?thesis using assms by (simp add: mmr_score_def marginal_relevance_def Let_def)
qed

lemma mmr_select_spec:
  assumes n: "0 < n"
  shows "\<exists>sel. mmr_select lam qs ds n top_k = Inr sel
    \<and> sel \<noteq> [] \<and> distinct sel \<and> set sel \<subseteq> {..<n}
    \<and> (\<forall>i<n. qs i \<le> qs (sel ! 0) \<and> (qs i = qs (sel ! 0) \<longrightarrow> sel ! 0 \<le> i))
    \<and> (\<forall>j. 0 < j \<and> j < length sel \<longrightarrow> (\<forall>i<n. i \<notin> set (take j sel) \<longrightarrow>
          marginal_relevance lam qs ds (take j sel) i \<le> marginal_relevance lam qs ds (take j sel) (sel ! j)
          \<and> (marginal_relevance lam qs ds (take j sel) i = marginal_relevance lam qs ds (take j sel) (sel ! j)
               \<longrightarrow> sel ! j \<le> i)))
    \<and> int (length sel) = max 1 (min (top_k_or top_k (int n)) (int n))"
proof -
  from np_argmax_spec [OF n, of qs] obtain first where
    am: "np_argmax (map qs [0..<n]) = Inr first" and fn: "first < n" and
    fmax: "\<forall>i<n. qs i \<le> qs first \<and> (qs i = qs first \<longrightarrow> first \<le> i)" by blast
  define rem where "rem = remove1 first [0..<n]"
  define t where "t = min (top_k_or top_k (int n)) (int n)"
  have srem: "sorted_wrt (<) rem"
    unfolding rem_def by (simp add: strict_sorted_iff sorted_remove1 del: upt.simps)
  have setrem: "set rem = {..<n} - {first}" unfolding rem_def by auto
  have disj: "set [first] \<inter> set rem = {}" using setrem by simp
  have lrem: "length rem = n - 1" unfolding rem_def using fn by (simp add: length_remove1)
  from mmr_loop_spec [OF srem disj, of lam qs ds t] obtain taken where
    eq: "mmr_loop lam qs ds t [first] rem = [first] @ taken" and
    dt: "distinct taken" and sub: "set taken \<subseteq> set rem" and
    len: "length taken = (if int (length [first]) < t then min (nat t - length [first]) (length rem) else 0)" and
    step: "\<forall>j < length taken. \<forall>i \<in> set rem - set (take j taken).
          mmr_score lam qs ds ([first] @ take j taken) i \<le> mmr_score lam qs ds ([first] @ take j taken) (taken ! j)
          \<and> (mmr_score lam qs ds ([first] @ take j taken) i = mmr_score lam qs ds ([first] @ take j taken) (taken ! j)
               \<longrightarrow> taken ! j \<le> i)"
    by blast
  let ?sel = "first # taken"
  have r1: "mmr_select lam qs ds n top_k = Inr ?sel"
    using am eq by (simp add: mmr_select_def Let_def rem_def t_def del: upt.simps)
  have r2: "distinct ?sel" using dt sub setrem by auto
  have r3: "set ?sel \<subseteq> {..<n}" using fn sub setrem by auto
  have r4: "\<forall>i<n. qs i \<le> qs (?sel ! 0) \<and> (qs i = qs (?sel ! 0) \<longrightarrow> ?sel ! 0 \<le> i)"
    using fmax by simp
  have r5: "\<forall>j. 0 < j \<and> j < length ?sel \<longrightarrow> (\<forall>i<n. i \<notin> set (take j ?sel) \<longrightarrow>
          marginal_relevance lam qs ds (take j ?sel) i \<le> marginal_relevance lam qs ds (take j ?sel) (?sel ! j)
          \<and> (marginal_relevance lam qs ds (take j ?sel) i = marginal_relevance lam qs ds (take j ?sel) (?sel ! j)
               \<longrightarrow> ?sel ! j \<le> i))"
  proof (intro allI impI)
    fix j i assume j: "0 < j \<and> j < length ?sel" and i: "i < n" and ni: "i \<notin> set (take j ?sel)"
    obtain j' where jj: "j = Suc j'" using j by (cases j) auto
    have j'l: "j' < length taken" using j jj by simp
    have tk: "take j ?sel = [first] @ take j' taken" using jj by simp
    have i': "i \<in> set rem - set (take j' taken)" using i ni setrem tk by auto
    have ne: "take j ?sel \<noteq> []" using tk by simp
    have nth: "?sel ! j = taken ! j'" using jj by simp
    from step j'l i' have
      "mmr_score lam qs ds (take j ?sel) i \<le> mmr_score lam qs ds (take j ?sel) (?sel ! j)
       \<and> (mmr_score lam qs ds (take j ?sel) i = mmr_score lam qs ds (take j ?sel) (?sel ! j)
               \<longrightarrow> ?sel ! j \<le> i)"
      unfolding tk nth by blast
    then show "marginal_relevance lam qs ds (take j ?sel) i \<le> marginal_relevance lam qs ds (take j ?sel) (?sel ! j)
          \<and> (marginal_relevance lam qs ds (take j ?sel) i = marginal_relevance lam qs ds (take j ?sel) (?sel ! j)
               \<longrightarrow> ?sel ! j \<le> i)"
      unfolding mmr_score_marginal [OF ne] .
  qed
  have tn: "t \<le> int n" unfolding t_def by simp
  have len': "length taken = (if 1 < t then min (nat t - 1) (n - 1) else 0)"
    using len lrem by simp
  have "int (Suc (length taken)) = max 1 t"
  proof (cases "1 < t")
    case True
    then have "length taken = min (nat t - 1) (n - 1)" using len' by simp
    then show ?thesis using True tn n by arith
  next
    case False
    then have "length taken = 0" using len' by simp
    then show ?thesis using False by simp
  qed
  then have r6: "int (length ?sel) = max 1 t" by simp
  show ?thesis using r1 r2 r3 r4 r5 r6 unfolding t_def by blast
qed

lemma sort_reverse_mset: "sort_reverse key xs = Inr ys \<Longrightarrow> mset ys = mset xs"
  by (auto simp: sort_reverse_def split: if_splits)

lemma sort_reverse_length: "sort_reverse key xs = Inr ys \<Longrightarrow> length ys = length xs"
  using sort_reverse_mset [of key xs ys] by (metis size_mset)

lemma top_k_or_zero: "top_k_or (Some 0) n = top_k_or None n"
  by (simp add: top_k_or_def truthy_int_def)

lemma basic_zero: "basic_rerank_documents q docs (Some 0) = basic_rerank_documents q docs None"
  by (simp add: basic_rerank_documents_def truthy_int_def Let_def split: sum.splits)

lemma mmr_select_zero: "mmr_select lam qs ds n (Some 0) = mmr_select lam qs ds n None"
  unfolding mmr_select_def top_k_or_zero ..

lemma mmr_try_zero: "mmr_try E lam q docs (Some 0) = mmr_try E lam q docs None"
  unfolding mmr_try_def mmr_select_zero ..

lemma mmr_zero: "mmr_rerank_documents E lam q docs (Some 0) = mmr_rerank_documents E lam q docs None"
  unfolding mmr_rerank_documents_def mmr_try_zero basic_zero ..

lemma basic_none_mset:
  assumes "basic_rerank_documents q docs None = Inr r"
  shows "mset r = mset docs"
proof -
  let ?f = "\<lambda>doc. (doc, md_get (metadata doc) (py ''score'') (MFloat 0))"
  from assms obtain s where s: "sort_reverse snd (map ?f docs) = Inr s" and r: "r = map fst s"
    by (auto simp: basic_rerank_documents_def Let_def truthy_int_def split: sum.splits)
  have "mset s = mset (map ?f docs)" using sort_reverse_mset [OF s] .
  then have "image_mset fst (mset s) = image_mset fst (mset (map ?f docs))" by simp
  then show ?thesis using r by (simp add: multiset.map_comp comp_def)
qed

lemma slice_to_length: "0 < k \<Longrightarrow> int (length (slice_to xs k)) \<le> k"
  by (simp add: slice_to_def)

lemma basic_pos_bound:
  assumes "0 < k" and "basic_rerank_documents q docs (Some k) = Inr r"
  shows "int (length r) \<le> k"
  using assms slice_to_length [OF assms(1)]
  by (auto simp: basic_rerank_documents_def Let_def truthy_int_def split: sum.splits)

lemma annotate_length: "length (annotate qs sel ds) = length ds"
  by (simp add: annotate_def)

lemma annotate_content: "map page_content (annotate qs sel ds) = map page_content ds"
proof -
  have "map page_content (annotate qs sel ds) = map (page_content \<circ> snd) (enumerate 0 ds)"
    by (simp add: annotate_def case_prod_unfold comp_def)
  also have "\<dots> = map page_content (map snd (enumerate 0 ds))"
    by (simp only: map_map)
  also have "\<dots> = map page_content ds" by (simp only: map_snd_enumerate)
  finally show ?thesis .
qed


lemma mmr_try_spec:
  assumes n: "0 < length documents"
    and ft: "fit_transform E (q # map page_content documents) = Inr M"
  shows "\<exists>sel. mmr_try E lam q documents top_k
              = Inr (annotate (query_similarities E M) sel (map ((!) documents) sel))
           \<and> mmr_select lam (query_similarities E M) (doc_similarities E M) (length documents) top_k = Inr sel"
proof -
  from mmr_select_spec [OF n, of lam "query_similarities E M" "doc_similarities E M" top_k]
  obtain sel where "mmr_select lam (query_similarities E M) (doc_similarities E M) (length documents) top_k = Inr sel"
    by blast
  then show ?thesis using ft by (simp add: mmr_try_def Let_def)
qed

lemma mmr_none_length:
  assumes "mmr_rerank_documents E lam q docs None = Inr r"
  shows "length r = length docs \<and> mset (map page_content r) = mset (map page_content docs)"
proof (cases "length docs \<le> 1")
  case True
  then show ?thesis using assms by (auto simp: mmr_rerank_documents_def split: if_splits)
next
  case False
  then have n2: "2 \<le> length docs" by simp
  have n: "0 < length docs" using n2 by linarith
  have ne: "docs \<noteq> []" using n by simp
  show ?thesis
  proof (cases "fit_transform E (q # map page_content docs)")
    case (Inl e)
    then have "mmr_try E lam q docs None = Inl e" by (simp add: mmr_try_def)
    then have "basic_rerank_documents q docs None = Inr r"
      using assms False ne by (simp add: mmr_rerank_documents_def)
    then have "mset r = mset docs" by (rule basic_none_mset)
    then show ?thesis by (metis mset_map size_mset)
  next
    case (Inr M)
    let ?qs = "query_similarities E M" and ?ds = "doc_similarities E M"
    from mmr_select_spec [OF n, of lam ?qs ?ds None] obtain sel where
      ms: "mmr_select lam ?qs ?ds (length docs) None = Inr sel" and
      d: "distinct sel" and sub: "set sel \<subseteq> {..<length docs}" and
      len: "int (length sel) = max 1 (min (top_k_or None (int (length docs))) (int (length docs)))"
      by blast
    have r: "r = annotate ?qs sel (map ((!) docs) sel)"
      using assms False ne Inr ms by (simp add: mmr_rerank_documents_def mmr_try_def Let_def)
    have ls: "length sel = length docs" using len n2 by (simp add: top_k_or_def truthy_int_def)
    have "card (set sel) = card {..<length docs}" using d ls by (simp add: distinct_card)
    then have "set sel = {..<length docs}" using sub by (simp add: card_subset_eq)
    then have "mset sel = mset [0..<length docs]"
      using d by (metis atLeast_upt distinct_upt set_eq_iff_mset_eq_distinct)
    then have "mset (map ((!) docs) sel) = mset (map ((!) docs) [0..<length docs])"
      by (metis mset_map)
    then have "mset (map ((!) docs) sel) = mset docs" by (simp add: map_nth)
    then have "mset (map page_content (map ((!) docs) sel)) = mset (map page_content docs)"
      by (metis mset_map)
    then show ?thesis using r ls by (simp add: annotate_length annotate_content)
  qed
qed

lemma mmr_pos_bound:
  assumes k: "0 < k" and r: "mmr_rerank_documents E lam q docs (Some k) = Inr r"
  shows "int (length r) \<le> k"
proof (cases "length docs \<le> 1")
  case True
  then have "r = docs" using r by (auto simp: mmr_rerank_documents_def split: if_splits)
  then show ?thesis using True k by simp
next
  case False
  then have n2: "2 \<le> length docs" by simp
  have n: "0 < length docs" using n2 by linarith
  have ne: "docs \<noteq> []" using n by simp
  show ?thesis
  proof (cases "fit_transform E (q # map page_content docs)")
    case (Inl e)
    then have "mmr_try E lam q docs (Some k) = Inl e" by (simp add: mmr_try_def)
    then have "basic_rerank_documents q docs (Some k) = Inr r"
      using r False ne by (simp add: mmr_rerank_documents_def)
    then show ?thesis using basic_pos_bound [OF k] by blast
  next
    case (Inr M)
    let ?qs = "query_similarities E M" and ?ds = "doc_similarities E M"
    from mmr_select_spec [OF n, of lam ?qs ?ds "Some k"] obtain sel where
      ms: "mmr_select lam ?qs ?ds (length docs) (Some k) = Inr sel" and
      len: "int (length sel) = max 1 (min (top_k_or (Some k) (int (length docs))) (int (length docs)))"
      by blast
    have rr: "r = annotate ?qs sel (map ((!) docs) sel)"
      using r False ne Inr ms by (simp add: mmr_rerank_documents_def mmr_try_def Let_def)
    have "int (length sel) \<le> k" using len k n2 by (simp add: top_k_or_def truthy_int_def)
    then show ?thesis using rr by (simp add: annotate_length)
  qed
qed

lemma basic_demo_zero:
  "basic_rerank_documents (py ''q'') [doc_a, doc_b] (Some 0) = Inr [doc_b, doc_a]"
  by (simp add: basic_rerank_documents_def sort_reverse_def md_get_def doc_a_def doc_b_def
      truthy_int_def Let_def)

lemma basic_demo_one:
  "basic_rerank_documents (py ''q'') [doc_a, doc_b] (Some 1) = Inr [doc_b]"
  by (simp add: basic_rerank_documents_def sort_reverse_def md_get_def doc_a_def doc_b_def
      truthy_int_def Let_def slice_to_def)

lemma mmr_demo_value:
  "mmr_rerank_documents demo_env (7 / 10) (py ''q'') [doc_a, doc_b] None =
     Inr [doc_b\<lparr>metadata := [(py ''score'', MFloat 2), (py ''mmr_rank'', MInt 1),
                               (py ''original_score'', MFloat (1 / 2))]\<rparr>,
          doc_a\<lparr>metadata := [(py ''score'', MFloat 1), (py ''mmr_rank'', MInt 2),
                               (py ''original_score'', MFloat (1 / 4))]\<rparr>]"
  by (simp add: mmr_rerank_documents_def mmr_try_def mmr_select_def np_argmax_def py_max_def
      mmr_loop.simps best_index_def mmr_score_def np_max_def annotate_def top_k_or_def
      truthy_int_def query_similarities_def doc_similarities_def demo_env_def demo_cosine_def
      doc_a_def doc_b_def Let_def py_def upt_rec [of 0] upt_rec [of 1] upt_rec [of 2])



text \<open>
  Claim C10. For every query and passage list, either reranker called with \<open>top_k = 0\<close>
  behaves exactly as with \<open>top_k\<close> absent and returns every passage (the full reranked
  list, of the length of the input), not an empty list; for a strictly positive \<open>top_k\<close>
  the result has at most \<open>top_k\<close> passages.
\<close>

theorem top_k_zero_means_no_limit:
  "basic_rerank_documents q docs (Some 0) = basic_rerank_documents q docs None
   \<and> mmr_rerank_documents E lam q docs (Some 0) = mmr_rerank_documents E lam q docs None
   \<and> (\<forall>r. basic_rerank_documents q docs (Some 0) = Inr r \<longrightarrow>
          length r = length docs \<and> mset r = mset docs)
   \<and> (\<forall>r. mmr_rerank_documents E lam q docs (Some 0) = Inr r \<longrightarrow>
          length r = length docs \<and> mset (map page_content r) = mset (map page_content docs))
   \<and> (\<forall>k r. 0 < k \<and> basic_rerank_documents q docs (Some k) = Inr r \<longrightarrow> int (length r) \<le> k)
   \<and> (\<forall>k r. 0 < k \<and> mmr_rerank_documents E lam q docs (Some k) = Inr r \<longrightarrow> int (length r) \<le> k)"
proof -
  have b0: "basic_rerank_documents q docs (Some 0) = basic_rerank_documents q docs None"
    by (rule basic_zero)
  have m0: "mmr_rerank_documents E lam q docs (Some 0) = mmr_rerank_documents E lam q docs None"
    by (rule mmr_zero)
  have b1: "\<forall>r. basic_rerank_documents q docs (Some 0) = Inr r \<longrightarrow>
          length r = length docs \<and> mset r = mset docs"
    unfolding b0 using basic_none_mset by (metis size_mset)
  have m1: "\<forall>r. mmr_rerank_documents E lam q docs (Some 0) = Inr r \<longrightarrow>
          length r = length docs \<and> mset (map page_content r) = mset (map page_content docs)"
    unfolding m0 using mmr_none_length by blast
  have b2: "\<forall>k r. 0 < k \<and> basic_rerank_documents q docs (Some k) = Inr r \<longrightarrow> int (length r) \<le> k"
    using basic_pos_bound by blast
  have m2: "\<forall>k r. 0 < k \<and> mmr_rerank_documents E lam q docs (Some k) = Inr r \<longrightarrow> int (length r) \<le> k"
    using mmr_pos_bound by blast
  show ?thesis using b0 m0 b1 m1 b2 m2 by blast
qed

theorem top_k_zero_means_no_limit_witness:
  "basic_rerank_documents (py ''q'') [doc_a, doc_b] (Some 0) = Inr [doc_b, doc_a]
   \<and> length [doc_b, doc_a] = length [doc_a, doc_b]
   \<and> basic_rerank_documents (py ''q'') [doc_a, doc_b] (Some 1) = Inr [doc_b]
   \<and> int (length [doc_b]) \<le> 1"
proof -
  note t = top_k_zero_means_no_limit [of "py ''q''" "[doc_a, doc_b]" demo_env "7 / 10"]
  from t basic_demo_zero have "length [doc_b, doc_a] = length [doc_a, doc_b]" by blast
  moreover from t basic_demo_one have "int (length [doc_b]) \<le> 1" by (metis zero_less_one)
  ultimately show ?thesis using basic_demo_zero basic_demo_one by blast
qed

section \<open>Properties of the pipeline\<close>

lemma p_get_llm_current:
  "p_get_llm E provider st = (r, st') \<Longrightarrow> current_provider (fst st') = current_provider (fst st)"
  by (auto simp: p_get_llm_def split: prod.splits)

lemma p_invoke_pipeline:
  "p_invoke E llm p st = (r, st') \<Longrightarrow> fst st' = fst st"
  by (auto simp: p_invoke_def split: prod.splits)

text \<open>
  Claim C9. For every question, rewriting with an empty (or absent) chat history returns
  the question itself and leaves the process unchanged: no generation backend is invoked.
\<close>
theorem rewrite_noop_on_empty_history:
  "rewrite_question_with_history E qn (Some []) llm w = (qn, w)
   \<and> rewrite_question_with_history E qn None llm w = (qn, w)
   \<and> calls (snd (rewrite_question_with_history E qn (Some []) llm w)) = calls w
   \<and> calls (snd (rewrite_question_with_history E qn None llm w)) = calls w"
  by (simp add: rewrite_question_with_history_def truthy_list_def)

text \<open>
  Claim C6. \<open>set_provider\<close> never raises. It returns \<open>True\<close> exactly when the client for the
  provider can be obtained and its probe call \<open>invoke("Hello")\<close> returns a non-empty
  response; then the provider becomes the current one. Otherwise (no client, probe
  exception, empty response) it returns \<open>False\<close> and the current provider is the previous one.
\<close>
theorem set_provider_all_or_nothing:
  "\<exists>b st'. set_provider E provider st = (Inr b, st')
     \<and> (b \<longleftrightarrow> (\<exists>llm st1 response st2.
            p_get_llm E (Some provider) st = (Inr llm, st1)
            \<and> p_invoke E llm (Raw (py ''Hello'')) st1 = (Inr response, st2)
            \<and> response \<noteq> []))
     \<and> (b \<longrightarrow> current_provider (fst st') = provider)
     \<and> (\<not> b \<longrightarrow> current_provider (fst st') = current_provider (fst st))"
proof -
  obtain r1 st1 where Pair: "p_get_llm E (Some provider) st = (r1, st1)"
    by (cases "p_get_llm E (Some provider) st") auto
  show ?thesis
  proof (cases r1)
    case (Inl e)
    then have "set_provider E provider st = (Inr False, st1)"
      using Pair by (simp add: set_provider_def try_bind_def try_except_def)
    moreover have "current_provider (fst st1) = current_provider (fst st)"
      using Pair by (rule p_get_llm_current)
    ultimately show ?thesis using Pair Inl by auto
  next
    case (Inr llm)
    obtain r2 st2 where inv: "p_invoke E llm (Raw (py ''Hello'')) st1 = (r2, st2)"
      by (cases "p_invoke E llm (Raw (py ''Hello'')) st1") auto
    have c1: "current_provider (fst st1) = current_provider (fst st)"
      using Pair by (rule p_get_llm_current)
    have c2: "fst st2 = fst st1" using inv by (rule p_invoke_pipeline)
    show ?thesis
    proof (cases r2)
      case (Inl e)
      then have "set_provider E provider st = (Inr False, st2)"
        using Pair Inr inv by (simp add: set_provider_def try_bind_def try_except_def)
      then show ?thesis using Pair Inr inv Inl c1 c2 by auto
    next
      case (Inr response)
      note resp = Inr
      show ?thesis
      proof (cases "response = []")
        case True
        then have "set_provider E provider st = (Inr False, st2)"
          using Pair \<open>r1 = Inr llm\<close> inv resp
          by (simp add: set_provider_def try_bind_def try_except_def)
        then show ?thesis using Pair \<open>r1 = Inr llm\<close> inv resp True c1 c2 by auto
      next
        case False
        obtain P2 w2 where st2: "st2 = (P2, w2)" by (cases st2) auto
        have "set_provider E provider st = (Inr True, (P2\<lparr>current_provider := provider\<rparr>, w2))"
          using Pair \<open>r1 = Inr llm\<close> inv resp False st2
          by (simp add: set_provider_def try_bind_def try_except_def)
        then show ?thesis using Pair \<open>r1 = Inr llm\<close> inv resp False by auto
      qed
    qed
  qed
qed

lemmas demo_simps = demo_env_def default_config_def initial_world_def new_pipeline_def
  new_llm_factory_def py_def

lemmas llm_simps = p_get_llm_def get_llm_def create_llm_def construct_llm_def str_or_def
  p_invoke_def invoke_def try_bind_def try_except_def Let_def

lemma set_provider_demo_gemini:
  "fst (set_provider demo_env (py ''gemini'') (new_pipeline default_config, initial_world)) = Inr True"
  by (simp add: set_provider_def llm_simps demo_simps)

lemma set_provider_demo_claude:
  "fst (set_provider demo_env (py ''claude'') (new_pipeline default_config, initial_world)) = Inr False"
  by (simp add: set_provider_def llm_simps demo_simps)

theorem set_provider_all_or_nothing_witness:
  "fst (set_provider demo_env (py ''gemini'') (new_pipeline default_config, initial_world)) = Inr True
   \<and> current_provider (fst (snd (set_provider demo_env (py ''gemini'')
         (new_pipeline default_config, initial_world)))) = py ''gemini''
   \<and> fst (set_provider demo_env (py ''claude'') (new_pipeline default_config, initial_world)) = Inr False
   \<and> current_provider (fst (snd (set_provider demo_env (py ''claude'')
         (new_pipeline default_config, initial_world)))) = llm_provider default_config"
proof -
  let ?st = "(new_pipeline default_config, initial_world)"
  from set_provider_all_or_nothing [of demo_env "py ''gemini''" ?st] obtain b st' where
    e: "set_provider demo_env (py ''gemini'') ?st = (Inr b, st')" and
    t: "b \<longrightarrow> current_provider (fst st') = py ''gemini''" by blast
  have "b" using e set_provider_demo_gemini by simp
  then have g: "current_provider (fst (snd (set_provider demo_env (py ''gemini'') ?st))) = py ''gemini''"
    using e t by simp
  from set_provider_all_or_nothing [of demo_env "py ''claude''" ?st] obtain b2 st2 where
    e2: "set_provider demo_env (py ''claude'') ?st = (Inr b2, st2)" and
    t2: "\<not> b2 \<longrightarrow> current_provider (fst st2) = current_provider (fst ?st)" by blast
  have "\<not> b2" using e2 set_provider_demo_claude by simp
  then have c: "current_provider (fst (snd (set_provider demo_env (py ''claude'') ?st)))
                  = llm_provider default_config"
    using e2 t2 by (simp add: new_pipeline_def)
  show ?thesis using g c set_provider_demo_gemini set_provider_demo_claude by blast
qed

theorem rewrite_noop_on_empty_history_witness:
  "rewrite_question_with_history demo_env (py ''q'') (Some [])
     \<lparr>obj_id = 0, spec = ChatGoogleGenerativeAI [] (py ''gemini-1.5-pro'') (1 / 10) 4000\<rparr> initial_world
   = (py ''q'', initial_world)"
  using rewrite_noop_on_empty_history
    [of demo_env "py ''q''" "\<lparr>obj_id = 0, spec = ChatGoogleGenerativeAI [] (py ''gemini-1.5-pro'') (1 / 10) 4000\<rparr>" initial_world]
  by blast












lemma error_response_shape:
  "\<exists>r st'. error_response E qn prov t0 e st = (Inr r, st')
     \<and> r_question r = qn \<and> r_answer r = error_prefix @ exc_str E e \<and> r_sources r = []
     \<and> map_of (r_meta r) (py ''error'') = Some (MText (exc_str E e))
     \<and> calls (snd st') = calls (snd st)"
  by (cases st) (simp add: error_response_def time_time_def py_def)


lemma history_answer_empty:
  assumes "get_relevant_documents E retriever qn = Inr []"
  shows "\<exists>r w'. history_answer E qn h t0 (pu, llm, retriever) (P, w) = (Inr r, (P, w'))
     \<and> r_question r = qn \<and> r_answer r = no_info_answer \<and> r_sources r = []
     \<and> map_of (r_meta r) (py ''retrieved_docs'') = Some (MInt 0)
     \<and> calls w' = calls w"
  using assms
  by (simp add: history_answer_def try_bind_def empty_response_def time_time_def py_def)

lemma rewrite_if:
  "(if truthy_list h then rewrite_question_with_history E qn h llm w else (qn, w))
     = rewrite_question_with_history E qn h llm w"
  by (simp add: rewrite_question_with_history_def)

lemma history_empty_retrieval:
  assumes prep: "prepare E notebook_id top_k provider (P, snd (time_time E w))
                   = (Inr (pu, llm, retriever), (P1, w1))"
    and rw: "rewrite_question_with_history E qn h llm w1 = (qn', w2)"
    and empty: "get_relevant_documents E retriever qn' = Inr []"
  shows "\<exists>r st'. query_with_history E qn notebook_id h top_k provider (P, w) = (Inr r, st')
     \<and> r_answer r = no_info_answer \<and> r_sources r = []
     \<and> map_of (r_meta r) (py ''retrieved_docs'') = Some (MInt 0)
     \<and> calls (snd st') = calls w2"
proof -
  obtain t0 w0 where tt: "time_time E w = (t0, w0)" by (cases "time_time E w") auto
  have prep': "prepare E notebook_id top_k provider (P, w0) = (Inr (pu, llm, retriever), (P1, w1))"
    using prep tt by simp
  from history_answer_empty [OF empty, of h t0 pu llm P1 w2] obtain r w' where
    qa: "history_answer E qn' h t0 (pu, llm, retriever) (P1, w2) = (Inr r, (P1, w'))"
    and shape: "r_answer r = no_info_answer \<and> r_sources r = []
       \<and> map_of (r_meta r) (py ''retrieved_docs'') = Some (MInt 0)"
    and cw: "calls w' = calls w2" by blast
  have "query_with_history E qn notebook_id h top_k provider (P, w) = (Inr r, (P1, w'))"
    by (simp add: query_with_history_def tt prep' rewrite_if rw qa try_except_def)
  then show ?thesis using shape cw by simp
qed

lemmas prepare_simps = prepare_def try_bind_def p_get_llm_def get_llm_def create_llm_def
  construct_llm_def str_or_def p_get_embeddings_def get_embeddings_def create_embeddings_def
  get_vector_store_def p_create_retriever_def create_retriever_def kwargs_or_def Let_def
  time_time_def




lemma try_except_total:
  assumes "\<And>e s. \<exists>r s'. h e s = (Inr r, s')"
  shows "\<exists>r s'. try_except m h = (Inr r, s')"
proof (cases m)
  case (Pair a s)
  then show ?thesis using assms by (cases a) (auto simp: try_except_def)
qed

lemma error_response_total: "\<exists>r s'. error_response E qn prov t0 e s = (Inr r, s')"
  using error_response_shape [of E qn prov t0 e s] by blast

lemma query_total: "\<exists>r st'. query E qn nb k prov st = (Inr r, st')"
proof -
  obtain P w where st: "st = (P, w)" by (cases st) auto
  obtain t0 w0 where tt: "time_time E w = (t0, w0)" by (cases "time_time E w") auto
  have "\<exists>r s'. try_except (try_bind (prepare E nb k prov (P, w0)) (query_answer E qn t0))
                  (error_response E qn prov t0) = (Inr r, s')"
    by (rule try_except_total) (rule error_response_total)
  then show ?thesis by (simp add: query_def st tt)
qed

lemma query_with_history_total: "\<exists>r st'. query_with_history E qn nb h k prov st = (Inr r, st')"
proof -
  obtain P w where st: "st = (P, w)" by (cases st) auto
  obtain t0 w0 where tt: "time_time E w = (t0, w0)" by (cases "time_time E w") auto
  obtain r1 s1 where prep: "prepare E nb k prov (P, w0) = (r1, s1)"
    by (cases "prepare E nb k prov (P, w0)") auto
  show ?thesis
  proof (cases r1)
    case (Inl e)
    then show ?thesis
      using error_response_total [of E qn prov t0 e s1]
      by (simp add: query_with_history_def st tt prep)
  next
    case (Inr plr)
    obtain pu llm ret where plr: "plr = (pu, llm, ret)" by (cases plr) auto
    obtain P1 w1 where s1: "s1 = (P1, w1)" by (cases s1) auto
    obtain qn' w2 where rw: "rewrite_question_with_history E qn h llm w1 = (qn', w2)"
      by (cases "rewrite_question_with_history E qn h llm w1") auto
    have "\<exists>r s'. try_except (history_answer E qn' h t0 (pu, llm, ret) (P1, w2))
                  (error_response E qn' prov t0) = (Inr r, s')"
      by (rule try_except_total) (rule error_response_total)
    then show ?thesis
      by (simp add: query_with_history_def st tt prep Inr plr s1 rewrite_if rw)
  qed
qed

lemma query_body_error:
  assumes "try_bind (prepare E nb k prov (P, snd (time_time E w)))
             (query_answer E qn (fst (time_time E w))) = (Inl e, st1)"
  shows "\<exists>r st'. query E qn nb k prov (P, w) = (Inr r, st')
     \<and> r_question r = qn \<and> r_answer r = error_prefix @ exc_str E e \<and> r_sources r = []
     \<and> map_of (r_meta r) (py ''error'') = Some (MText (exc_str E e))"
proof -
  obtain t0 w0 where tt: "time_time E w = (t0, w0)" by (cases "time_time E w") auto
  have b: "try_bind (prepare E nb k prov (P, w0)) (query_answer E qn t0) = (Inl e, st1)"
    using assms tt by simp
  have "query E qn nb k prov (P, w) = error_response E qn prov t0 e st1"
    by (simp add: query_def tt b try_except_def)
  then show ?thesis using error_response_shape [of E qn prov t0 e st1] by auto
qed

lemma query_generate_fail:
  assumes "llm_invoke E (spec llm) (length (calls w))
             (Chain Qa [(py ''context'', format_context E docs), (py ''question'', qn)]) = Inl e"
  shows "\<exists>st'. query_generate E qn pu llm docs t0 (P, w) = (Inl e, st')"
  using assms
  by (simp add: query_generate_def Let_def time_time_def p_invoke_def invoke_def try_bind_def)

lemma history_generate_fail:
  assumes "llm_invoke E (spec llm) (length (calls w))
             (Chain Conversational_qa
                [(py ''context'', format_context E docs),
                 (py ''chat_history'', format_chat_history (case h of None \<Rightarrow> [] | Some l \<Rightarrow> l)),
                 (py ''question'', qn)]) = Inl e"
  shows "\<exists>st'. history_generate E qn h pu llm docs t0 (P, w) = (Inl e, st')"
  using assms
  by (simp add: history_generate_def Let_def time_time_def p_invoke_def invoke_def try_bind_def)

lemma query_generation_error:
  assumes prep: "prepare E nb k prov (P, snd (time_time E w)) = (Inr (pu, llm, ret), (P1, w1))"
    and docs: "get_relevant_documents E ret qn = Inr docs" and ne: "docs \<noteq> []"
    and fail: "llm_invoke E (spec llm) (length (calls w1))
             (Chain Qa [(py ''context'', format_context E docs), (py ''question'', qn)]) = Inl e"
  shows "\<exists>r st'. query E qn nb k prov (P, w) = (Inr r, st')
     \<and> r_question r = qn \<and> r_answer r = error_prefix @ exc_str E e \<and> r_sources r = []
     \<and> map_of (r_meta r) (py ''error'') = Some (MText (exc_str E e))"
proof -
  from query_generate_fail [OF fail, of pu "fst (time_time E w)" P1] obtain st' where
    g: "query_generate E qn pu llm docs (fst (time_time E w)) (P1, w1) = (Inl e, st')" by blast
  have "try_bind (prepare E nb k prov (P, snd (time_time E w)))
             (query_answer E qn (fst (time_time E w))) = (Inl e, st')"
    using prep docs ne g by (simp add: try_bind_def query_answer_def)
  then show ?thesis by (rule query_body_error)
qed

lemma history_generation_error:
  assumes prep: "prepare E nb k prov (P, snd (time_time E w)) = (Inr (pu, llm, ret), (P1, w1))"
    and rw: "rewrite_question_with_history E qn h llm w1 = (qn', w2)"
    and docs: "get_relevant_documents E ret qn' = Inr docs" and ne: "docs \<noteq> []"
    and fail: "llm_invoke E (spec llm) (length (calls w2))
             (Chain Conversational_qa
                [(py ''context'', format_context E docs),
                 (py ''chat_history'', format_chat_history (case h of None \<Rightarrow> [] | Some l \<Rightarrow> l)),
                 (py ''question'', qn')]) = Inl e"
  shows "\<exists>r st'. query_with_history E qn nb h k prov (P, w) = (Inr r, st')
     \<and> r_question r = qn' \<and> r_answer r = error_prefix @ exc_str E e \<and> r_sources r = []
     \<and> map_of (r_meta r) (py ''error'') = Some (MText (exc_str E e))"
proof -
  obtain t0 w0 where tt: "time_time E w = (t0, w0)" by (cases "time_time E w") auto
  have prep': "prepare E nb k prov (P, w0) = (Inr (pu, llm, ret), (P1, w1))"
    using prep tt by simp
  from history_generate_fail [OF fail, of pu t0 P1] obtain st' where
    g: "history_generate E qn' h pu llm docs t0 (P1, w2) = (Inl e, st')" by blast
  have ha: "history_answer E qn' h t0 (pu, llm, ret) (P1, w2) = (Inl e, st')"
    using docs ne g by (simp add: try_bind_def history_answer_def)
  have "query_with_history E qn nb h k prov (P, w) = error_response E qn' prov t0 e st'"
    by (simp add: query_with_history_def tt prep' rewrite_if rw ha try_except_def)
  then show ?thesis using error_response_shape [of E qn' prov t0 e st'] by auto
qed

text \<open>
  Claim C4. \<open>query\<close> and \<open>query_with_history\<close> always return a result, never an exception.
  If any statement of the \<open>try\<close> block of \<open>query\<close> raises \<open>e\<close>, and in particular if the
  generation call of either operation raises \<open>e\<close> after a non-empty retrieval, the result
  has the answer "error during the query: " followed by \<open>str(e)\<close>, no sources, and
  \<open>str(e)\<close> in the \<open>error\<close> field of its metadata.
\<close>
theorem query_exceptions_become_results:
  "(\<exists>r st'. query E qn nb k prov (P, w) = (Inr r, st'))
   \<and> (\<exists>r st'. query_with_history E qn nb h k prov (P, w) = (Inr r, st'))
   \<and> (\<forall>e st1.
         try_bind (prepare E nb k prov (P, snd (time_time E w)))
           (query_answer E qn (fst (time_time E w))) = (Inl e, st1) \<longrightarrow>
         (\<exists>r st'. query E qn nb k prov (P, w) = (Inr r, st')
            \<and> r_answer r = error_prefix @ exc_str E e \<and> r_sources r = []
            \<and> map_of (r_meta r) (py ''error'') = Some (MText (exc_str E e))))
   \<and> (\<forall>pu llm ret P1 w1 docs e.
         prepare E nb k prov (P, snd (time_time E w)) = (Inr (pu, llm, ret), (P1, w1))
         \<and> get_relevant_documents E ret qn = Inr docs \<and> docs \<noteq> []
         \<and> llm_invoke E (spec llm) (length (calls w1))
             (Chain Qa [(py ''context'', format_context E docs), (py ''question'', qn)]) = Inl e \<longrightarrow>
         (\<exists>r st'. query E qn nb k prov (P, w) = (Inr r, st')
            \<and> r_answer r = error_prefix @ exc_str E e \<and> r_sources r = []
            \<and> map_of (r_meta r) (py ''error'') = Some (MText (exc_str E e))))
   \<and> (\<forall>pu llm ret P1 w1 qn' w2 docs e.
         prepare E nb k prov (P, snd (time_time E w)) = (Inr (pu, llm, ret), (P1, w1))
         \<and> rewrite_question_with_history E qn h llm w1 = (qn', w2)
         \<and> get_relevant_documents E ret qn' = Inr docs \<and> docs \<noteq> []
         \<and> llm_invoke E (spec llm) (length (calls w2))
             (Chain Conversational_qa
                [(py ''context'', format_context E docs),
                 (py ''chat_history'', format_chat_history (case h of None \<Rightarrow> [] | Some l \<Rightarrow> l)),
                 (py ''question'', qn')]) = Inl e \<longrightarrow>
         (\<exists>r st'. query_with_history E qn nb h k prov (P, w) = (Inr r, st')
            \<and> r_answer r = error_prefix @ exc_str E e \<and> r_sources r = []
            \<and> map_of (r_meta r) (py ''error'') = Some (MText (exc_str E e))))"
proof (intro conjI allI impI)
  show "\<exists>r st'. query E qn nb k prov (P, w) = (Inr r, st')" by (rule query_total)
next
  show "\<exists>r st'. query_with_history E qn nb h k prov (P, w) = (Inr r, st')"
    by (rule query_with_history_total)
next
  fix e st1
  assume "try_bind (prepare E nb k prov (P, snd (time_time E w)))
           (query_answer E qn (fst (time_time E w))) = (Inl e, st1)"
  from query_body_error [OF this]
  show "\<exists>r st'. query E qn nb k prov (P, w) = (Inr r, st')
            \<and> r_answer r = error_prefix @ exc_str E e \<and> r_sources r = []
            \<and> map_of (r_meta r) (py ''error'') = Some (MText (exc_str E e))" by blast
next
  fix pu llm ret P1 w1 docs e
  assume a: "prepare E nb k prov (P, snd (time_time E w)) = (Inr (pu, llm, ret), (P1, w1))
         \<and> get_relevant_documents E ret qn = Inr docs \<and> docs \<noteq> []
         \<and> llm_invoke E (spec llm) (length (calls w1))
             (Chain Qa [(py ''context'', format_context E docs), (py ''question'', qn)]) = Inl e"
  from query_generation_error [of E nb k prov P w pu llm ret P1 w1 qn docs e] a
  show "\<exists>r st'. query E qn nb k prov (P, w) = (Inr r, st')
            \<and> r_answer r = error_prefix @ exc_str E e \<and> r_sources r = []
            \<and> map_of (r_meta r) (py ''error'') = Some (MText (exc_str E e))" by blast
next
  fix pu llm ret P1 w1 qn' w2 docs e
  assume a: "prepare E nb k prov (P, snd (time_time E w)) = (Inr (pu, llm, ret), (P1, w1))
         \<and> rewrite_question_with_history E qn h llm w1 = (qn', w2)
         \<and> get_relevant_documents E ret qn' = Inr docs \<and> docs \<noteq> []
         \<and> llm_invoke E (spec llm) (length (calls w2))
             (Chain Conversational_qa
                [(py ''context'', format_context E docs),
                 (py ''chat_history'', format_chat_history (case h of None \<Rightarrow> [] | Some l \<Rightarrow> l)),
                 (py ''question'', qn')]) = Inl e"
  from history_generation_error [of E nb k prov P w pu llm ret P1 w1 qn h qn' w2 docs e] a
  show "\<exists>r st'. query_with_history E qn nb h k prov (P, w) = (Inr r, st')
            \<and> r_answer r = error_prefix @ exc_str E e \<and> r_sources r = []
            \<and> map_of (r_meta r) (py ''error'') = Some (MText (exc_str E e))" by blast
qed

lemma prepare_failing_env:
  "fst (prepare failing_env (py ''n'') 5 None
          (new_pipeline default_config, snd (time_time failing_env initial_world)))
   = Inr (py ''openai'', demo_llm,
          create_hybrid_retriever failing_env default_config demo_store [(py ''k'', 5)])"
  by (simp add: prepare_simps failing_env_def demo_simps demo_llm_def demo_store_def)

lemma search_failing_env:
  "get_relevant_documents failing_env
     (create_hybrid_retriever failing_env default_config demo_store [(py ''k'', 5)]) (py ''q'')
   = Inr [doc_a, doc_b]"
  by (simp add: create_hybrid_retriever_def create_bm25_retriever_def create_vector_retriever_def
      rrf_fuse_def rrf_score_def doc_a_def doc_b_def kw_get_def
      failing_env_def demo_simps Let_def)

theorem query_exceptions_become_results_witness:
  "\<exists>r st'. query failing_env (py ''q'') (py ''n'') 5 None (new_pipeline default_config, initial_world)
              = (Inr r, st')
     \<and> r_answer r = error_prefix @ py ''timeout'' \<and> r_sources r = []
     \<and> map_of (r_meta r) (py ''error'') = Some (MText (py ''timeout''))"
proof -
  let ?X = "prepare failing_env (py ''n'') 5 None
              (new_pipeline default_config, snd (time_time failing_env initial_world))"
  let ?R = "create_hybrid_retriever failing_env default_config demo_store [(py ''k'', 5)]"
  have prep: "?X = (Inr (py ''openai'', demo_llm, ?R), (fst (snd ?X), snd (snd ?X)))"
    using prepare_failing_env by (metis prod.collapse)
  have ne: "[doc_a, doc_b] \<noteq> []" by simp
  have fail: "llm_invoke failing_env (spec demo_llm) (length (calls (snd (snd ?X))))
             (Chain Qa [(py ''context'', format_context failing_env [doc_a, doc_b]),
                        (py ''question'', py ''q'')]) = Inl (ExternalError (py ''timeout''))"
    by (simp add: failing_env_def)
  have s: "exc_str failing_env (ExternalError (py ''timeout'')) = py ''timeout''"
    by (simp add: exc_str_def)
  from query_exceptions_become_results
    [of failing_env "py ''q''" "py ''n''" 5 None "new_pipeline default_config" initial_world None]
    prep search_failing_env ne fail
  have "\<exists>r st'. query failing_env (py ''q'') (py ''n'') 5 None (new_pipeline default_config, initial_world)
              = (Inr r, st')
     \<and> r_answer r = error_prefix @ exc_str failing_env (ExternalError (py ''timeout'')) \<and> r_sources r = []
     \<and> map_of (r_meta r) (py ''error'') = Some (MText (exc_str failing_env (ExternalError (py ''timeout''))))"
    by blast
  then show ?thesis unfolding s .
qed

section \<open>Properties of the factories\<close>

lemma create_llm_unsupported:
  assumes "provider \<noteq> py ''openai''" "provider \<noteq> py ''deepseek''"
    "provider \<noteq> py ''gemini''" "provider \<noteq> py ''doubao''"
  shows "create_llm E cfg provider w
           = (Inl (ValueError (py ''Unsupported LLM provider: '' @ provider)), w)"
  using assms by (simp add: create_llm_def)

lemma p_get_llm_unsupported:
  assumes "provider \<noteq> py ''openai'' \<and> provider \<noteq> py ''deepseek'' \<and> provider \<noteq> py ''gemini''
      \<and> provider \<noteq> py ''doubao'' \<and> provider \<noteq> [] \<and> map_of (llms (p_llm_factory P)) provider = None"
  shows "p_get_llm E (Some provider) (P, w)
           = (Inl (ValueError (py ''Unsupported LLM provider: '' @ provider)), (P, w))"
proof -
  have "create_llm E (lf_config (p_llm_factory P)) provider w
           = (Inl (ValueError (py ''Unsupported LLM provider: '' @ provider)), w)"
    using assms create_llm_unsupported by blast
  then show ?thesis using assms by (simp add: p_get_llm_def get_llm_def str_or_def)
qed

lemma query_unsupported_provider:
  assumes "provider \<noteq> py ''openai'' \<and> provider \<noteq> py ''deepseek'' \<and> provider \<noteq> py ''gemini''
      \<and> provider \<noteq> py ''doubao'' \<and> provider \<noteq> [] \<and> map_of (llms (p_llm_factory P)) provider = None"
  shows "\<exists>r st'. query E qn nb k (Some provider) (P, w) = (Inr r, st')
     \<and> r_answer r = error_prefix @ py ''Unsupported LLM provider: '' @ provider
     \<and> r_sources r = []
     \<and> map_of (r_meta r) (py ''error'')
          = Some (MText (py ''Unsupported LLM provider: '' @ provider))"
proof -
  let ?e = "ValueError (py ''Unsupported LLM provider: '' @ provider)"
  have ne: "provider \<noteq> []" using assms by simp
  have "prepare E nb k (Some provider) (P, snd (time_time E w)) = (Inl ?e, (P, snd (time_time E w)))"
    using p_get_llm_unsupported [OF assms, of E "snd (time_time E w)"] ne
    by (simp add: prepare_def str_or_def try_bind_def Let_def)
  then have "try_bind (prepare E nb k (Some provider) (P, snd (time_time E w)))
             (query_answer E qn (fst (time_time E w))) = (Inl ?e, (P, snd (time_time E w)))"
    by (simp add: try_bind_def)
  from query_body_error [OF this] show ?thesis by (auto simp: exc_str_def)
qed

lemma set_provider_unsupported:
  assumes "provider \<noteq> py ''openai'' \<and> provider \<noteq> py ''deepseek'' \<and> provider \<noteq> py ''gemini''
      \<and> provider \<noteq> py ''doubao'' \<and> provider \<noteq> [] \<and> map_of (llms (p_llm_factory P)) provider = None"
  shows "set_provider E provider (P, w) = (Inr False, (P, w))"
  using p_get_llm_unsupported [OF assms, of E w]
  by (simp add: set_provider_def try_bind_def try_except_def)

text \<open>
  Claim C7, as stated, fails for retrieval modes: asked explicitly for the unsupported mode
  \<open>graph\<close>, \<open>create_retriever\<close> raises nothing and returns the vector retriever.
\<close>
theorem unsupported_mode_is_silent:
  "fst (create_retriever demo_env default_config demo_store (Some (py ''graph'')) None initial_world)
     = Inr (create_vector_retriever default_config demo_store [(py ''k'', 10)])"
  by (simp add: create_retriever_def str_or_def kwargs_or_def default_config_def py_def Let_def)

text \<open>
  Claim C7, amended. A provider name that is none of \<open>openai\<close>, \<open>deepseek\<close>, \<open>gemini\<close>,
  \<open>doubao\<close> (and is not cached) makes \<open>get_llm\<close> raise
  \<open>ValueError("Unsupported LLM provider: ...")\<close>, leaving factory and process unchanged;
  \<open>set_provider\<close> then returns \<open>False\<close> and \<open>query\<close> returns the error-shaped result
  carrying that message. A retrieval mode that is none of the five supported ones raises
  nothing: \<open>create_retriever\<close> returns the vector retriever, as it does for mode \<open>vector\<close>.
\<close>
theorem unsupported_provider_raises_unsupported_mode_degrades:
  "(provider \<noteq> py ''openai'' \<and> provider \<noteq> py ''deepseek'' \<and> provider \<noteq> py ''gemini''
      \<and> provider \<noteq> py ''doubao'' \<and> provider \<noteq> []
      \<and> map_of (llms (p_llm_factory P)) provider = None \<longrightarrow>
      get_llm E (Some provider) (p_llm_factory P, w)
        = (Inl (ValueError (py ''Unsupported LLM provider: '' @ provider)), p_llm_factory P, w)
      \<and> set_provider E provider (P, w) = (Inr False, (P, w))
      \<and> (\<exists>r st'. query E qn nb k (Some provider) (P, w) = (Inr r, st')
            \<and> r_answer r = error_prefix @ py ''Unsupported LLM provider: '' @ provider
            \<and> r_sources r = []
            \<and> map_of (r_meta r) (py ''error'')
                 = Some (MText (py ''Unsupported LLM provider: '' @ provider))))
   \<and> (rtype \<noteq> py ''vector'' \<and> rtype \<noteq> py ''bm25'' \<and> rtype \<noteq> py ''hybrid''
      \<and> rtype \<noteq> py ''multi_query'' \<and> rtype \<noteq> py ''contextual_compression'' \<and> rtype \<noteq> [] \<longrightarrow>
      create_retriever E cfg vs (Some rtype) kw w
        = (Inr (create_vector_retriever cfg vs (kwargs_or kw [(py ''k'', top_k_retrieval cfg)])), w))"
proof (intro conjI impI)
  assume a: "provider \<noteq> py ''openai'' \<and> provider \<noteq> py ''deepseek'' \<and> provider \<noteq> py ''gemini''
      \<and> provider \<noteq> py ''doubao'' \<and> provider \<noteq> []
      \<and> map_of (llms (p_llm_factory P)) provider = None"
  then have "create_llm E (lf_config (p_llm_factory P)) provider w
           = (Inl (ValueError (py ''Unsupported LLM provider: '' @ provider)), w)"
    using create_llm_unsupported by blast
  then show "get_llm E (Some provider) (p_llm_factory P, w)
        = (Inl (ValueError (py ''Unsupported LLM provider: '' @ provider)), p_llm_factory P, w)"
    using a by (simp add: get_llm_def str_or_def)
  show "set_provider E provider (P, w) = (Inr False, (P, w))"
    using a by (rule set_provider_unsupported)
  show "\<exists>r st'. query E qn nb k (Some provider) (P, w) = (Inr r, st')
            \<and> r_answer r = error_prefix @ py ''Unsupported LLM provider: '' @ provider
            \<and> r_sources r = []
            \<and> map_of (r_meta r) (py ''error'')
                 = Some (MText (py ''Unsupported LLM provider: '' @ provider))"
    using a by (rule query_unsupported_provider)
next
  assume "rtype \<noteq> py ''vector'' \<and> rtype \<noteq> py ''bm25'' \<and> rtype \<noteq> py ''hybrid''
      \<and> rtype \<noteq> py ''multi_query'' \<and> rtype \<noteq> py ''contextual_compression'' \<and> rtype \<noteq> []"
  then show "create_retriever E cfg vs (Some rtype) kw w
        = (Inr (create_vector_retriever cfg vs (kwargs_or kw [(py ''k'', top_k_retrieval cfg)])), w)"
    by (simp add: create_retriever_def str_or_def Let_def)
qed

theorem unsupported_provider_raises_unsupported_mode_degrades_witness:
  "get_llm demo_env (Some (py ''claude'')) (new_llm_factory default_config, initial_world)
     = (Inl (ValueError (py ''Unsupported LLM provider: '' @ py ''claude'')),
        new_llm_factory default_config, initial_world)
   \<and> set_provider demo_env (py ''claude'') (new_pipeline default_config, initial_world)
     = (Inr False, (new_pipeline default_config, initial_world))
   \<and> create_retriever demo_env default_config demo_store (Some (py ''graph'')) None initial_world
     = (Inr (create_vector_retriever default_config demo_store
               (kwargs_or None [(py ''k'', top_k_retrieval default_config)])), initial_world)"
proof -
  have f: "p_llm_factory (new_pipeline default_config) = new_llm_factory default_config"
    by (simp add: new_pipeline_def)
  have p: "py ''claude'' \<noteq> py ''openai'' \<and> py ''claude'' \<noteq> py ''deepseek''
      \<and> py ''claude'' \<noteq> py ''gemini'' \<and> py ''claude'' \<noteq> py ''doubao'' \<and> py ''claude'' \<noteq> []
      \<and> map_of (llms (p_llm_factory (new_pipeline default_config))) (py ''claude'') = None"
    by (simp add: py_def new_llm_factory_def new_pipeline_def)
  have r: "py ''graph'' \<noteq> py ''vector'' \<and> py ''graph'' \<noteq> py ''bm25'' \<and> py ''graph'' \<noteq> py ''hybrid''
      \<and> py ''graph'' \<noteq> py ''multi_query'' \<and> py ''graph'' \<noteq> py ''contextual_compression''
      \<and> py ''graph'' \<noteq> []"
    by (simp add: py_def)
  from unsupported_provider_raises_unsupported_mode_degrades
    [of "py ''claude''" "new_pipeline default_config" demo_env initial_world "py ''q''" "py ''n''" 5
        "py ''graph''" default_config demo_store None]
    p r
  show ?thesis unfolding f by blast
qed

lemmas retriever_simps = create_hybrid_retriever_def create_bm25_retriever_def
  create_vector_retriever_def kw_get_def Let_def

lemmas mmr_eval_simps = rerank_documents_def mmr_rerank_documents_def mmr_try_def mmr_select_def
  np_argmax_def py_max_def mmr_loop.simps best_index_def mmr_score_def np_max_def annotate_def
  top_k_or_def truthy_int_def query_similarities_def doc_similarities_def demo_cosine_def
  upt_rec [of 0] upt_rec [of 1] upt_rec [of 2]

lemmas rrf_simps = rrf_fuse_def rrf_score_def doc_a_def doc_b_def

text \<open>
  Claim C5 at the default configuration (\<open>reranker_type = "mmr"\<close>): when the namespace is
  empty, or when building the BM25 index fails, \<open>_create_bm25_retriever\<close> falls back to the
  reranking wrapper around the vector retriever, which is not an instance of the vector
  retriever's class; the \<open>isinstance\<close> test of \<open>_create_hybrid_retriever\<close> is false and
  the result is an ensemble of the raw and the reranked vector retrievers, not the
  vector-mode retriever. On the two-passage store its output is the fused order
  \<open>[doc_a, doc_b]\<close>, where vector mode returns the MMR order \<open>[doc_b, doc_a]\<close>.
\<close>
theorem hybrid_fallback_is_not_vector_mode:
  "create_hybrid_retriever empty_env default_config demo_store [(py ''k'', 5)]
     = EnsembleRetriever
         [VectorStoreRetriever demo_store [(py ''k'', 5)],
          RerankedRetriever (VectorStoreRetriever demo_store [(py ''k'', 5)]) (MMRReranker (7 / 10) 20)]
         [6 / 10, 1 - 6 / 10]
   \<and> create_vector_retriever default_config demo_store [(py ''k'', 5)]
     = RerankedRetriever (VectorStoreRetriever demo_store [(py ''k'', 5)]) (MMRReranker (7 / 10) 20)
   \<and> create_hybrid_retriever no_bm25_env default_config demo_store [(py ''k'', 5)]
     = create_hybrid_retriever empty_env default_config demo_store [(py ''k'', 5)]
   \<and> get_relevant_documents no_bm25_env
        (create_hybrid_retriever no_bm25_env default_config demo_store [(py ''k'', 5)]) (py ''q'')
     = Inr [doc_a, doc_b]
   \<and> get_relevant_documents no_bm25_env
        (create_vector_retriever default_config demo_store [(py ''k'', 5)]) (py ''q'')
     = Inr [doc_b\<lparr>metadata := [(py ''score'', MFloat 2), (py ''mmr_rank'', MInt 1),
                               (py ''original_score'', MFloat (1 / 2))]\<rparr>,
            doc_a\<lparr>metadata := [(py ''score'', MFloat 1), (py ''mmr_rank'', MInt 2),
                               (py ''original_score'', MFloat (1 / 4))]\<rparr>]"
  by (simp add: retriever_simps mmr_eval_simps rrf_simps empty_env_def no_bm25_env_def demo_simps)

lemma hybrid_fallback_without_reranker:
  assumes "reranker_type cfg \<noteq> py ''mmr''" and "reranker_type cfg \<noteq> py ''basic''"
    and "similarity_search E vs [] [(py ''k'', 10000)] = Inr []"
  shows "create_hybrid_retriever E cfg vs kw = create_vector_retriever cfg vs kw"
  using assms by (simp add: retriever_simps)

lemma hybrid_fallback_with_reranker:
  assumes "reranker_type cfg = py ''mmr'' \<or> reranker_type cfg = py ''basic''"
    and "similarity_search E vs [] [(py ''k'', 10000)] = Inr []"
    and "ensemble_init E [hybrid_alpha cfg, 1 - hybrid_alpha cfg] = None"
  shows "create_hybrid_retriever E cfg vs kw
           = EnsembleRetriever [VectorStoreRetriever vs kw, create_vector_retriever cfg vs kw]
               [hybrid_alpha cfg, 1 - hybrid_alpha cfg]"
  using assms by (auto simp: retriever_simps)




lemma construct_llm_created:
  "construct_llm E p sp w = (r, w') \<Longrightarrow>
     (case r of Inl e \<Rightarrow> created w' = created w
      | Inr llm \<Rightarrow> created w' = created w @ [(p, llm)])"
  by (auto simp: construct_llm_def Let_def split: option.splits)

lemma create_llm_created:
  "create_llm E cfg p w = (r, w') \<Longrightarrow>
     (case r of Inl e \<Rightarrow> created w' = created w
      | Inr llm \<Rightarrow> created w' = created w @ [(p, llm)])"
  by (auto simp: create_llm_def split: if_splits dest: construct_llm_created)

lemma get_llm_cached:
  assumes "get_llm E p (f, w) = (Inr llm, f', w')"
  shows "get_llm E p (f', w'') = (Inr llm, f', w'')"
proof -
  let ?n = "str_or p (llm_provider (lf_config f))"
  show ?thesis
  proof (cases "map_of (llms f) ?n")
    case (Some l)
    then have "f' = f \<and> l = llm" using assms by (simp add: get_llm_def Let_def)
    then show ?thesis using Some by (simp add: get_llm_def Let_def)
  next
    case None
    obtain r w1 where c: "create_llm E (lf_config f) ?n w = (r, w1)"
      by (cases "create_llm E (lf_config f) ?n w") auto
    have f': "f' = f\<lparr>llms := AList.update ?n llm (llms f)\<rparr>"
      using assms None c by (cases r) (simp_all add: get_llm_def Let_def)
    have "map_of (llms f') ?n = Some llm" by (simp add: f' update_conv')
    moreover have "lf_config f' = lf_config f" by (simp add: f')
    ultimately show ?thesis by (simp add: get_llm_def Let_def)
  qed
qed

text \<open>What holds of one factory and the process between two requests.\<close>

lemma get_llm_invariant:
  assumes inv: "created w = base @ extra \<and> distinct (map fst extra)
                  \<and> fst ` set extra = fst ` set (llms f)"
    and g: "get_llm E p (f, w) = (r, f', w')"
  shows "\<exists>extra'. created w' = base @ extra' \<and> distinct (map fst extra')
           \<and> fst ` set extra' = fst ` set (llms f')"
proof -
  let ?n = "str_or p (llm_provider (lf_config f))"
  show ?thesis
  proof (cases "map_of (llms f) ?n")
    case (Some l)
    then have "f' = f \<and> w' = w" using g by (simp add: get_llm_def Let_def)
    then show ?thesis using inv by blast
  next
    case None
    then have nk: "?n \<notin> fst ` set (llms f)" by (simp add: map_of_eq_None_iff)
    obtain r1 w1 where c: "create_llm E (lf_config f) ?n w = (r1, w1)"
      by (cases "create_llm E (lf_config f) ?n w") auto
    show ?thesis
    proof (cases r1)
      case (Inl e)
      then have "f' = f \<and> w' = w1" using g None c by (simp add: get_llm_def Let_def)
      moreover have "created w1 = created w" using create_llm_created [OF c] Inl by simp
      ultimately show ?thesis using inv by auto
    next
      case (Inr llm)
      then have f': "f' = f\<lparr>llms := AList.update ?n llm (llms f)\<rparr>" and w': "w' = w1"
        using g None c by (simp_all add: get_llm_def Let_def)
      have cr: "created w1 = created w @ [(?n, llm)]"
        using create_llm_created [OF c] Inr by simp
      let ?e = "extra @ [(?n, llm)]"
      have 1: "created w' = base @ ?e" using cr inv w' by simp
      have 2: "distinct (map fst ?e)" using inv nk by auto
      have 3: "fst ` set ?e = fst ` set (llms f')"
        using inv by (simp add: f' dom_update)
      show ?thesis using 1 2 3 by blast
    qed
  qed
qed

lemma get_llm_many_invariant:
  assumes "created w = base @ extra \<and> distinct (map fst extra)
             \<and> fst ` set extra = fst ` set (llms f)"
  shows "\<exists>extra'. created (snd (get_llm_many E ps (f, w))) = base @ extra'
           \<and> distinct (map fst extra')
           \<and> fst ` set extra' = fst ` set (llms (fst (get_llm_many E ps (f, w))))"
  using assms
proof (induction ps arbitrary: f w extra)
  case Nil
  then show ?case by auto
next
  case (Cons p ps)
  obtain r f1 w1 where g: "get_llm E p (f, w) = (r, f1, w1)"
    by (cases "get_llm E p (f, w)") auto
  from get_llm_invariant [OF Cons.prems g] obtain e1 where
    "created w1 = base @ e1 \<and> distinct (map fst e1) \<and> fst ` set e1 = fst ` set (llms f1)"
    by blast
  from Cons.IH [OF this] show ?case by (simp add: g)
qed

lemma distinct_count_le_one:
  "distinct (map fst xs) \<Longrightarrow> length (filter (\<lambda>c. fst c = n) xs) \<le> 1"
proof (induction xs)
  case Nil
  then show ?case by simp
next
  case (Cons x xs)
  show ?case
  proof (cases "fst x = n")
    case True
    then have "n \<notin> fst ` set xs" using Cons.prems by auto
    then have "filter (\<lambda>c. fst c = n) xs = []" by (auto simp: filter_empty_conv)
    then show ?thesis using True by simp
  next
    case False
    then show ?thesis using Cons by simp
  qed
qed

lemma one_factory_constructs_once:
  "constructions name (snd (get_llm_many E ps (new_llm_factory cfg, w)))
     \<le> constructions name w + 1"
proof -
  have "created w = created w @ [] \<and> distinct (map fst ([] :: (pystr \<times> llm_obj) list))
          \<and> fst ` set ([] :: (pystr \<times> llm_obj) list) = fst ` set (llms (new_llm_factory cfg))"
    by (simp add: new_llm_factory_def)
  from get_llm_many_invariant [OF this, of E ps] obtain extra where
    c: "created (snd (get_llm_many E ps (new_llm_factory cfg, w))) = created w @ extra"
    and d: "distinct (map fst extra)" by blast
  show ?thesis using distinct_count_le_one [OF d, of name] by (simp add: constructions_def c)
qed

lemmas prepare_simps2 = prepare_def try_bind_def p_get_llm_def get_llm_def create_llm_def
  construct_llm_def str_or_def p_get_embeddings_def get_embeddings_def create_embeddings_def
  get_vector_store_def p_create_retriever_def create_retriever_def kwargs_or_def Let_def
  time_time_def create_multi_query_retriever_def create_vector_retriever_def

lemmas query_simps = query_def try_except_def query_answer_def query_generate_def query_empty_def
  p_invoke_def invoke_def format_sources_def md_get_def

text \<open>
  Claim C8, as stated, fails: in multi-query mode a single \<open>query\<close> constructs two clients
  for the provider \<open>openai\<close>, one in the pipeline's factory and one in the fresh
  \<open>LLMFactory\<close> that \<open>_create_multi_query_retriever\<close> builds.
\<close>
theorem query_constructs_second_client:
  "created (snd (snd (query demo_env (py ''q'') (py ''n'') 5 None
      (new_pipeline (default_config\<lparr>retriever_type := py ''multi_query''\<rparr>), initial_world))))
   = [(py ''openai'', \<lparr>obj_id = 0, spec = spec demo_llm\<rparr>),
      (py ''openai'', \<lparr>obj_id = 1, spec = spec demo_llm\<rparr>)]
   \<and> constructions (py ''openai'') (snd (snd (query demo_env (py ''q'') (py ''n'') 5 None
      (new_pipeline (default_config\<lparr>retriever_type := py ''multi_query''\<rparr>), initial_world)))) = 2"
  by (simp add: query_simps prepare_simps2 constructions_def demo_simps demo_llm_def doc_a_def doc_b_def)

text \<open>
  Claim C8, amended. The memoisation is per factory object: once \<open>get_llm\<close> has returned a
  client for a name, every later request for that name to the same factory returns that
  client and constructs nothing; and any sequence of requests to one new factory
  constructs at most one client per provider name.
\<close>
theorem llm_factory_memoizes_per_instance:
  "(get_llm E p (f, w) = (Inr llm, f', w') \<longrightarrow> get_llm E p (f', w'') = (Inr llm, f', w''))
   \<and> constructions name (snd (get_llm_many E ps (new_llm_factory cfg, w)))
        \<le> constructions name w + 1"
  using get_llm_cached one_factory_constructs_once by blast

theorem llm_factory_memoizes_per_instance_witness:
  "get_llm demo_env (Some (py ''openai''))
     (fst (snd (get_llm demo_env (Some (py ''openai'')) (new_llm_factory default_config, initial_world))),
      snd (snd (get_llm demo_env (Some (py ''openai'')) (new_llm_factory default_config, initial_world))))
   = (Inr demo_llm,
      fst (snd (get_llm demo_env (Some (py ''openai'')) (new_llm_factory default_config, initial_world))),
      snd (snd (get_llm demo_env (Some (py ''openai'')) (new_llm_factory default_config, initial_world))))
   \<and> constructions (py ''openai'')
        (snd (get_llm_many demo_env [Some (py ''openai''), None, Some (py ''openai'')]
               (new_llm_factory default_config, initial_world))) \<le> 1"
proof -
  let ?g = "get_llm demo_env (Some (py ''openai'')) (new_llm_factory default_config, initial_world)"
  have "fst ?g = Inr demo_llm"
    by (simp add: get_llm_def create_llm_def construct_llm_def str_or_def demo_simps demo_llm_def Let_def)
  then have e: "?g = (Inr demo_llm, fst (snd ?g), snd (snd ?g))" by (metis prod.collapse)
  have z: "constructions (py ''openai'') initial_world = 0"
    by (simp add: constructions_def initial_world_def)
  note t = llm_factory_memoizes_per_instance
    [of demo_env "Some (py ''openai'')" "new_llm_factory default_config" initial_world demo_llm
        "fst (snd ?g)" "snd (snd ?g)" "snd (snd ?g)" "py ''openai''"
        "[Some (py ''openai''), None, Some (py ''openai'')]" default_config]
  from t e have 1: "get_llm demo_env (Some (py ''openai'')) (fst (snd ?g), snd (snd ?g))
      = (Inr demo_llm, fst (snd ?g), snd (snd ?g))" by blast
  from t z have 2: "constructions (py ''openai'')
        (snd (get_llm_many demo_env [Some (py ''openai''), None, Some (py ''openai'')]
               (new_llm_factory default_config, initial_world))) \<le> 1" by simp
  show ?thesis using 1 2 by blast
qed

end
